theory Spec2Isabelle
  imports Main "HOL-Library.Word" "HOL-Library.Signed_Division"
begin

section \<open>The cloud layer of the EBS CSI driver (pkg/cloud/cloud.go)\<close>

text \<open>
  The functions of \<^verbatim>\<open>cloud.go\<close> are embedded as HOL functions. A call of the EC2 transport
  becomes a step of an arbitrary provider: a function from the request and the provider's
  state to a response (or an error) and the next state. Every transport call is appended to a
  log, so that "no call is issued" is a statement about the log. Go's \<^verbatim>\<open>int64\<close> is a 64-bit
  word read as two's complement; a pointer that may be nil is an \<open>option\<close>; a run-time panic
  is an outcome of its own.
\<close>

subsection \<open>Machine integers and nil-safe readers\<close>

type_synonym int64 = "64 word"

definition StringValue :: "string option \<Rightarrow> string" where
  "StringValue p = (case p of None \<Rightarrow> [] | Some s \<Rightarrow> s)"

definition Int64Value :: "int64 option \<Rightarrow> int64" where
  "Int64Value p = (case p of None \<Rightarrow> 0 | Some n \<Rightarrow> n)"

definition TimeValue :: "int option \<Rightarrow> int" where
  "TimeValue p = (case p of None \<Rightarrow> 0 | Some t \<Rightarrow> t)"

subsection \<open>Constants\<close>

definition VolumeTypeIO1 :: string where "VolumeTypeIO1 = ''io1''"
definition VolumeTypeIO2 :: string where "VolumeTypeIO2 = ''io2''"
definition VolumeTypeGP2 :: string where "VolumeTypeGP2 = ''gp2''"
definition VolumeTypeST2 :: string where "VolumeTypeST2 = ''st2''"
definition VolumeTypeStandard :: string where "VolumeTypeStandard = ''standard''"
definition DefaultVolumeType :: string where "DefaultVolumeType = VolumeTypeGP2"

definition MinTotalIOPS :: int64 where "MinTotalIOPS = 100"
definition MaxTotalIOPS :: int64 where "MaxTotalIOPS = 20000"

definition VolumeNameTagKey :: string where "VolumeNameTagKey = ''CSIVolumeName''"

definition VolumeModificationStateCompleted :: string where
  "VolumeModificationStateCompleted = ''completed''"
definition VolumeModificationStateOptimizing :: string where
  "VolumeModificationStateOptimizing = ''optimizing''"

subsection \<open>Errors, panics, outcomes\<close>

text \<open>
  A Go \<^verbatim>\<open>error\<close> value: an \<^verbatim>\<open>awserr.Error\<close> with its code and message, any other error value
  of the transport, the package's sentinel errors, the timeout of the wait package, and the
  result of \<^verbatim>\<open>fmt.Errorf\<close> (its format, its string and number operands in order, its
  error operand).
\<close>

datatype operand = S string | N nat

datatype error =
    AwsError string string
  | OtherError string
  | ErrMultiDisks
  | ErrDiskExistsDiffSize
  | ErrNotFound
  | ErrAlreadyExists
  | ErrMultiSnapshots
  | ErrInvalidMaxResults
  | ErrWaitTimeout
  | Errorf string "operand list" "error option"

datatype panic = NilPointerDereference | IndexOutOfRange | TypeAssertionFailed

datatype 'a outcome = Ok 'a | Error error | Panic panic

fun isAWSError :: "error \<Rightarrow> string \<Rightarrow> bool" where
  "isAWSError (AwsError c m) code = (c = code)"
| "isAWSError _ code = False"

definition isAWSErrorIncorrectModification :: "error \<Rightarrow> bool" where
  "isAWSErrorIncorrectModification err = isAWSError err ''IncorrectModificationState''"

definition isAWSErrorInstanceNotFound :: "error \<Rightarrow> bool" where
  "isAWSErrorInstanceNotFound err = isAWSError err ''InvalidInstanceID.NotFound''"

definition isAWSErrorVolumeNotFound :: "error \<Rightarrow> bool" where
  "isAWSErrorVolumeNotFound err = isAWSError err ''InvalidVolume.NotFound''"

definition isAWSErrorSnapshotNotFound :: "error \<Rightarrow> bool" where
  "isAWSErrorSnapshotNotFound err = isAWSError err ''InvalidSnapshot.NotFound''"

subsection \<open>Data of the package\<close>

record Disk =
  VolumeID :: string
  CapacityGiB :: int64
  AvailabilityZone :: string
  SnapshotID :: string

text \<open>
  \<^verbatim>\<open>DiskOptions.Tags\<close> is a Go map; the order in which \<^verbatim>\<open>range\<close> visits it is not fixed by
  the language, so the options carry the pairs in the order of this run.
\<close>

record DiskOptions =
  CapacityBytes :: int64
  Tags :: "(string \<times> string) list"
  VolumeType :: string
  IOPSPerGB :: int64
  OptAvailabilityZone :: string
  Encrypted :: bool
  KmsKeyID :: string
  OptSnapshotID :: string

record Snapshot =
  SnapSnapshotID :: string
  SourceVolumeID :: string
  SnapSize :: int64
  CreationTime :: int
  ReadyToUse :: bool

record ListSnapshotsResponse =
  RespSnapshots :: "Snapshot option list"
  RespNextToken :: string

subsection \<open>Requests and responses of the EC2 transport\<close>

record Filter =
  Name :: string
  Values :: "string list"

record DescribeVolumesInput =
  VolFilters :: "Filter list"
  VolumeIds :: "string list"
  VolNextToken :: "string option"

record VolumeAttachment =
  AttState :: "string option"

record Volume =
  VolumeId :: "string option"
  Size :: "int64 option"
  VolAvailabilityZone :: "string option"
  SnapshotId :: "string option"
  State :: "string option"
  Attachments :: "VolumeAttachment list"

record DescribeVolumesOutput =
  Volumes :: "Volume list"
  VolsNextToken :: "string option"

record Tag =
  Key :: string
  TagValue :: string

record TagSpecification =
  ResourceType :: string
  SpecTags :: "Tag list"

record CreateVolumeInput =
  ReqAvailabilityZone :: string
  ReqSize :: int64
  ReqVolumeType :: string
  TagSpecifications :: "TagSpecification list"
  ReqEncrypted :: bool
  KmsKeyId :: "string option"
  Iops :: "int64 option"
  ReqSnapshotId :: "string option"

record DeleteVolumeInput =
  DelVolumeId :: string

record AttachVolumeInput =
  InstanceId :: string
  AttVolumeId :: string

record Instance =
  InstInstanceId :: "string option"

record Reservation =
  Instances :: "Instance list"

record DescribeInstancesInput =
  InstanceIds :: "string list"
  InstNextToken :: "string option"

record DescribeInstancesOutput =
  Reservations :: "Reservation list"
  InstsNextToken :: "string option"

record DeleteSnapshotInput =
  DelSnapshotId :: string
  DelDryRun :: bool

record ec2Snapshot =
  Ec2SnapshotId :: "string option"
  Ec2VolumeId :: "string option"
  VolumeSize :: "int64 option"
  StartTime :: "int option"
  Ec2State :: "string option"

record DescribeSnapshotsInput =
  MaxResults :: "int64 option"
  SnapNextToken :: "string option"
  SnapFilters :: "Filter list"

record DescribeSnapshotsOutput =
  Snapshots :: "ec2Snapshot list"
  SnapsNextToken :: "string option"

record ec2ListSnapshotsResponse =
  ListSnapshots_ec2 :: "ec2Snapshot list"
  ListNextToken :: "string option"

record ModifyVolumeInput =
  ModVolumeId :: string
  ModSize :: int64

record VolumeModification =
  ModificationState :: "string option"
  TargetSize :: "int64 option"

record ModifyVolumeOutput =
  VolumeModification :: "VolumeModification option"

record DescribeVolumesModificationsInput =
  ModsVolumeIds :: "string list"

record DescribeVolumesModificationsOutput =
  VolumesModifications :: "VolumeModification list"

record AvailabilityZone_ec2 =
  ZoneName :: "string option"

record DescribeAvailabilityZonesOutput =
  AvailabilityZones :: "AvailabilityZone_ec2 list"

text \<open>The log of transport calls, one entry per call, oldest first.\<close>

datatype call =
    CallDescribeVolumes DescribeVolumesInput
  | CallCreateVolume CreateVolumeInput
  | CallDeleteVolume DeleteVolumeInput
  | CallAttachVolume AttachVolumeInput
  | CallDescribeInstances DescribeInstancesInput
  | CallDeleteSnapshot DeleteSnapshotInput
  | CallDescribeSnapshots DescribeSnapshotsInput
  | CallModifyVolume ModifyVolumeInput
  | CallDescribeVolumesModifications DescribeVolumesModificationsInput
  | CallDescribeAvailabilityZones

text \<open>
  The transport behind the \<^verbatim>\<open>EC2\<close> interface, over a provider state \<open>'s\<close>. \<open>IsSDKClient\<close>
  says whether the dynamic type of the interface value is the SDK's \<^verbatim>\<open>*ec2.EC2\<close>;
  \<open>SendAttachVolume\<close> is what sending the request built by the package's own
  \<^verbatim>\<open>AttachVolumeWithContext\<close> through that client answers.
\<close>

record 's EC2 =
  IsSDKClient :: bool
  DescribeVolumesWithContext ::
    "DescribeVolumesInput \<Rightarrow> 's \<Rightarrow> (error + DescribeVolumesOutput) \<times> 's"
  CreateVolumeWithContext :: "CreateVolumeInput \<Rightarrow> 's \<Rightarrow> (error + Volume) \<times> 's"
  DeleteVolumeWithContext :: "DeleteVolumeInput \<Rightarrow> 's \<Rightarrow> (error + unit) \<times> 's"
  SendAttachVolume :: "AttachVolumeInput \<Rightarrow> 's \<Rightarrow> (error + VolumeAttachment) \<times> 's"
  DescribeInstancesWithContext ::
    "DescribeInstancesInput \<Rightarrow> 's \<Rightarrow> (error + DescribeInstancesOutput) \<times> 's"
  DeleteSnapshotWithContext :: "DeleteSnapshotInput \<Rightarrow> 's \<Rightarrow> (error + unit) \<times> 's"
  DescribeSnapshotsWithContext ::
    "DescribeSnapshotsInput \<Rightarrow> 's \<Rightarrow> (error + DescribeSnapshotsOutput) \<times> 's"
  ModifyVolumeWithContext ::
    "ModifyVolumeInput \<Rightarrow> 's \<Rightarrow> (error + ModifyVolumeOutput) \<times> 's"
  DescribeVolumesModificationsWithContext ::
    "DescribeVolumesModificationsInput \<Rightarrow> 's
       \<Rightarrow> (error + DescribeVolumesModificationsOutput) \<times> 's"
  DescribeAvailabilityZonesWithContext ::
    "'s \<Rightarrow> (error + DescribeAvailabilityZonesOutput) \<times> 's"

record 's world =
  provider :: 's
  calls :: "call list"

definition invoke ::
  "('s \<Rightarrow> 'r \<times> 's) \<Rightarrow> call \<Rightarrow> 's world \<Rightarrow> 'r \<times> 's world" where
  "invoke f cl w =
     (case f (provider w) of
        (r, s') \<Rightarrow> (r, \<lparr>provider = s', calls = calls w @ [cl]\<rparr>))"


subsection \<open>The parts of the repository that cloud.go imports\<close>

text \<open>
  The package \<^verbatim>\<open>pkg/util\<close> is not among the sources, so its three conversions are
  parameters of every function that uses them.
\<close>

record util =
  BytesToGiB :: "int64 \<Rightarrow> int64"
  RoundUpGiB :: "int64 \<Rightarrow> int64"
  GiBToBytes :: "int64 \<Rightarrow> int64"

text \<open>
  Modelled from the spec: the conversions of \<^verbatim>\<open>pkg/util\<close>, used where a concrete run
  needs them. The spec has a size in bytes "rounded up to whole GiB" and a snapshot size in
  bytes "derived from provider's GiB size"; Go's division truncates towards zero.
\<close>

definition GiB :: int64 where
  "GiB = 1024 * 1024 * 1024"

definition util_GiB :: util where
  "util_GiB =
     \<lparr>BytesToGiB = (\<lambda>b. word_of_int (sint b sdiv sint GiB)),
      RoundUpGiB = (\<lambda>b. word_of_int (sint (b + GiB - 1) sdiv sint GiB)),
      GiBToBytes = (\<lambda>g. g * GiB)\<rparr>"

text \<open>
  Modelled from the spec: the \<^verbatim>\<open>Device\<close> of \<^verbatim>\<open>pkg/cloud/devicemanager\<close>, which is not
  among the sources. The spec gives it a path, the flag \<^verbatim>\<open>IsAlreadyAssigned\<close>, an explicit
  taint flag set by \<^verbatim>\<open>Taint()\<close>, and \<^verbatim>\<open>Release(destructive)\<close>; the model records each
  release with its argument. How a device is allocated is a parameter (\<open>NewDevice\<close>).
\<close>

record Device =
  Path :: string
  IsAlreadyAssigned :: bool
  isTainted :: bool
  releases :: "bool list"

definition Taint :: "Device \<Rightarrow> Device" where
  "Taint d = d\<lparr>isTainted := True\<rparr>"

definition Release :: "bool \<Rightarrow> Device \<Rightarrow> Device" where
  "Release force d = d\<lparr>releases := releases d @ [force]\<rparr>"

record DeviceManager =
  NewDevice :: "Instance \<Rightarrow> string \<Rightarrow> error + Device"

record 's cloud =
  region :: string
  ec2 :: "'s EC2"
  dm :: DeviceManager

subsection \<open>The wait package\<close>

text \<open>
  \<^verbatim>\<open>wait.ExponentialBackoff\<close> runs the condition at most \<^verbatim>\<open>Steps\<close> times: an error of the
  condition ends it with that error, \<^verbatim>\<open>true\<close> ends it with nil, and after the last step
  it is \<^verbatim>\<open>ErrWaitTimeout\<close>. The state \<open>'w\<close> holds the world and the variables the
  closure captures. \<open>None\<close> is a condition that does not return.
\<close>

fun ExponentialBackoff ::
  "nat \<Rightarrow> ('w \<Rightarrow> ((bool \<times> error option) \<times> 'w) option) \<Rightarrow> 'w \<Rightarrow> (error option \<times> 'w) option"
  where
  "ExponentialBackoff 0 condition w = Some (Some ErrWaitTimeout, w)"
| "ExponentialBackoff (Suc n) condition w =
     (case condition w of
        None \<Rightarrow> None
      | Some ((ok, err), w') \<Rightarrow>
          if err \<noteq> None \<or> ok then Some (err, w')
          else ExponentialBackoff n condition w')"

text \<open>
  \<^verbatim>\<open>wait.Poll\<close> runs the condition once per tick until the timeout. How many ticks fit
  before the timeout depends on real time, so their number is the parameter \<open>ticks\<close>.
\<close>

fun Poll ::
  "nat \<Rightarrow> ('w \<Rightarrow> ((bool \<times> error option) \<times> 'w) option) \<Rightarrow> 'w \<Rightarrow> (error option \<times> 'w) option"
  where
  "Poll 0 condition w = Some (Some ErrWaitTimeout, w)"
| "Poll (Suc n) condition w =
     (case condition w of
        None \<Rightarrow> None
      | Some ((done, err), w') \<Rightarrow>
          if err \<noteq> None then Some (err, w')
          else if done then Some (None, w')
          else Poll n condition w')"

subsection \<open>Lookups with pagination\<close>

text \<open>
  The loop of \<^verbatim>\<open>getVolume\<close> follows continuation tokens for as long as the provider hands
  them out. \<open>fuel\<close> bounds the pages one loop may fetch; \<open>None\<close> is a loop that has not
  ended within it. The loop writes the token into the caller's request, so the request is
  returned as the loop leaves it.
\<close>

fun getVolume_loop ::
  "nat \<Rightarrow> 's cloud \<Rightarrow> DescribeVolumesInput \<Rightarrow> Volume list \<Rightarrow> 's world
     \<Rightarrow> ((error + Volume list) \<times> DescribeVolumesInput \<times> 's world) option" where
  "getVolume_loop 0 c request volumes w = None"
| "getVolume_loop (Suc n) c request volumes w =
     (case invoke (DescribeVolumesWithContext (ec2 c) request) (CallDescribeVolumes request) w of
        (Inl err, w') \<Rightarrow> Some (Inl err, request, w')
      | (Inr response, w') \<Rightarrow>
          if StringValue (VolsNextToken response) = []
          then Some (Inr (volumes @ Volumes response), request, w')
          else getVolume_loop n c (request\<lparr>VolNextToken := VolsNextToken response\<rparr>)
                 (volumes @ Volumes response) w')"

definition getVolume ::
  "nat \<Rightarrow> 's cloud \<Rightarrow> DescribeVolumesInput \<Rightarrow> 's world
     \<Rightarrow> ((error + Volume) \<times> DescribeVolumesInput \<times> 's world) option" where
  "getVolume fuel c request w =
     (case getVolume_loop fuel c request [] w of
        None \<Rightarrow> None
      | Some (Inl err, request', w') \<Rightarrow> Some (Inl err, request', w')
      | Some (Inr volumes, request', w') \<Rightarrow>
          if 1 < length volumes then Some (Inl ErrMultiDisks, request', w')
          else if length volumes < 1 then Some (Inl ErrNotFound, request', w')
          else Some (Inr (volumes ! 0), request', w'))"

fun getInstance_loop ::
  "nat \<Rightarrow> 's cloud \<Rightarrow> DescribeInstancesInput \<Rightarrow> Instance list \<Rightarrow> 's world
     \<Rightarrow> ((error + Instance list) \<times> 's world) option" where
  "getInstance_loop 0 c request instances w = None"
| "getInstance_loop (Suc n) c request instances w =
     (case invoke (DescribeInstancesWithContext (ec2 c) request)
             (CallDescribeInstances request) w of
        (Inl err, w') \<Rightarrow>
          if isAWSErrorInstanceNotFound err then Some (Inl ErrNotFound, w')
          else Some (Inl (Errorf ''error listing AWS instances: %q'' [] (Some err)), w')
      | (Inr response, w') \<Rightarrow>
          if StringValue (InstsNextToken response) = []
          then Some (Inr (instances @ concat (map Instances (Reservations response))), w')
          else getInstance_loop n c (request\<lparr>InstNextToken := InstsNextToken response\<rparr>)
                 (instances @ concat (map Instances (Reservations response))) w')"

definition getInstance ::
  "nat \<Rightarrow> 's cloud \<Rightarrow> string \<Rightarrow> 's world \<Rightarrow> ((error + Instance) \<times> 's world) option" where
  "getInstance fuel c nodeID w =
     (case getInstance_loop fuel c \<lparr>InstanceIds = [nodeID], InstNextToken = None\<rparr> [] w of
        None \<Rightarrow> None
      | Some (Inl err, w') \<Rightarrow> Some (Inl err, w')
      | Some (Inr instances, w') \<Rightarrow>
          if 1 < length instances
          then Some (Inl (Errorf ''found %d instances with ID %q''
                            [N (length instances), S nodeID] None), w')
          else if length instances < 1 then Some (Inl ErrNotFound, w')
          else Some (Inr (instances ! 0), w'))"

subsection \<open>Volumes: lookup by name, delete\<close>

definition GetDiskByName ::
  "util \<Rightarrow> nat \<Rightarrow> 's cloud \<Rightarrow> string \<Rightarrow> int64 \<Rightarrow> 's world
     \<Rightarrow> ((error + Disk) \<times> 's world) option" where
  "GetDiskByName u fuel c name capacityBytes w =
     (case getVolume fuel c
             \<lparr>VolFilters = [\<lparr>Name = ''tag:'' @ VolumeNameTagKey, Values = [name]\<rparr>],
              VolumeIds = [], VolNextToken = None\<rparr> w of
        None \<Rightarrow> None
      | Some (Inl err, _, w') \<Rightarrow> Some (Inl err, w')
      | Some (Inr volume, _, w') \<Rightarrow>
          if Int64Value (Size volume) \<noteq> BytesToGiB u capacityBytes
          then Some (Inl ErrDiskExistsDiffSize, w')
          else Some (Inr \<lparr>VolumeID = StringValue (VolumeId volume),
                          CapacityGiB = Int64Value (Size volume),
                          AvailabilityZone = StringValue (VolAvailabilityZone volume),
                          SnapshotID = StringValue (SnapshotId volume)\<rparr>, w'))"

text \<open>\<^verbatim>\<open>DeleteDisk\<close> and \<^verbatim>\<open>DeleteSnapshot\<close> return Go's pair of a flag and an error.\<close>

definition DeleteDisk ::
  "'s cloud \<Rightarrow> string \<Rightarrow> 's world \<Rightarrow> (bool \<times> error option) \<times> 's world" where
  "DeleteDisk c volumeID w =
     (case invoke (DeleteVolumeWithContext (ec2 c) \<lparr>DelVolumeId = volumeID\<rparr>)
             (CallDeleteVolume \<lparr>DelVolumeId = volumeID\<rparr>) w of
        (Inl err, w') \<Rightarrow>
          if isAWSErrorVolumeNotFound err then ((False, Some ErrNotFound), w')
          else ((False, Some (Errorf ''DeleteDisk could not delete volume: %v'' [] (Some err))),
                w')
      | (Inr _, w') \<Rightarrow> ((True, None), w'))"

definition DeleteSnapshot ::
  "'s cloud \<Rightarrow> string \<Rightarrow> 's world \<Rightarrow> (bool \<times> error option) \<times> 's world" where
  "DeleteSnapshot c snapshotID w =
     (case invoke (DeleteSnapshotWithContext (ec2 c)
                     \<lparr>DelSnapshotId = snapshotID, DelDryRun = False\<rparr>)
             (CallDeleteSnapshot \<lparr>DelSnapshotId = snapshotID, DelDryRun = False\<rparr>) w of
        (Inl err, w') \<Rightarrow>
          if isAWSErrorSnapshotNotFound err then ((False, Some ErrNotFound), w')
          else ((False,
                 Some (Errorf ''DeleteSnapshot could not delete volume: %v'' [] (Some err))), w')
      | (Inr _, w') \<Rightarrow> ((True, None), w'))"

subsection \<open>Snapshots: one page of a listing\<close>

definition ec2SnapshotResponseToStruct :: "util \<Rightarrow> ec2Snapshot option \<Rightarrow> Snapshot option" where
  "ec2SnapshotResponseToStruct u p =
     (case p of
        None \<Rightarrow> None
      | Some ec2Snap \<Rightarrow>
          Some \<lparr>SnapSnapshotID = StringValue (Ec2SnapshotId ec2Snap),
                SourceVolumeID = StringValue (Ec2VolumeId ec2Snap),
                SnapSize = GiBToBytes u (Int64Value (VolumeSize ec2Snap)),
                CreationTime = TimeValue (StartTime ec2Snap),
                ReadyToUse = (StringValue (Ec2State ec2Snap) = ''completed'')\<rparr>)"

definition listSnapshots ::
  "'s cloud \<Rightarrow> DescribeSnapshotsInput \<Rightarrow> 's world
     \<Rightarrow> (error + ec2ListSnapshotsResponse) \<times> 's world" where
  "listSnapshots c request w =
     (case invoke (DescribeSnapshotsWithContext (ec2 c) request)
             (CallDescribeSnapshots request) w of
        (Inl err, w') \<Rightarrow> (Inl err, w')
      | (Inr response, w') \<Rightarrow>
          (Inr \<lparr>ListSnapshots_ec2 = Snapshots response,
                ListNextToken = SnapsNextToken response\<rparr>, w'))"

definition describeSnapshotsInput :: "string \<Rightarrow> int64 \<Rightarrow> string \<Rightarrow> DescribeSnapshotsInput" where
  "describeSnapshotsInput volumeID maxResults nextToken =
     \<lparr>MaxResults = Some maxResults,
      SnapNextToken = (if length nextToken \<noteq> 0 then Some nextToken else None),
      SnapFilters = (if length volumeID \<noteq> 0
                     then [\<lparr>Name = ''volume-id'', Values = [volumeID]\<rparr>] else [])\<rparr>"

definition ListSnapshots ::
  "util \<Rightarrow> 's cloud \<Rightarrow> string \<Rightarrow> int64 \<Rightarrow> string \<Rightarrow> 's world
     \<Rightarrow> (error + ListSnapshotsResponse) \<times> 's world" where
  "ListSnapshots u c volumeID maxResults nextToken w =
     (if 0 <s maxResults \<and> maxResults <s 5 then (Inl ErrInvalidMaxResults, w)
      else
        (case listSnapshots c (describeSnapshotsInput volumeID maxResults nextToken) w of
           (Inl err, w') \<Rightarrow> (Inl err, w')
         | (Inr ec2SnapshotsResponse, w') \<Rightarrow>
             (let snapshots = map (\<lambda>s. ec2SnapshotResponseToStruct u (Some s))
                                (ListSnapshots_ec2 ec2SnapshotsResponse)
              in if length snapshots = 0 then (Inl ErrNotFound, w')
                 else (Inr \<lparr>RespSnapshots = snapshots,
                            RespNextToken =
                              StringValue (ListNextToken ec2SnapshotsResponse)\<rparr>, w'))))"

subsection \<open>Waiting for an attachment state\<close>

fun verifyVolumeFunc_scan :: "VolumeAttachment list \<Rightarrow> string \<Rightarrow> bool" where
  "verifyVolumeFunc_scan [] state = False"
| "verifyVolumeFunc_scan (a # rest) state =
     (case AttState a of
        None \<Rightarrow> verifyVolumeFunc_scan rest state
      | Some s \<Rightarrow> if s = state then True else verifyVolumeFunc_scan rest state)"

definition verifyVolumeFunc ::
  "nat \<Rightarrow> 's cloud \<Rightarrow> string \<Rightarrow> string \<Rightarrow> 's world
     \<Rightarrow> ((bool \<times> error option) \<times> 's world) option" where
  "verifyVolumeFunc fuel c volumeID state w =
     (case getVolume fuel c \<lparr>VolFilters = [], VolumeIds = [volumeID], VolNextToken = None\<rparr> w of
        None \<Rightarrow> None
      | Some (Inl err, _, w') \<Rightarrow> Some ((False, Some err), w')
      | Some (Inr volume, _, w') \<Rightarrow>
          if length (Attachments volume) = 0 \<and> state = ''detached''
          then Some ((True, None), w')
          else Some ((verifyVolumeFunc_scan (Attachments volume) state, None), w'))"

definition WaitForAttachmentState ::
  "nat \<Rightarrow> 's cloud \<Rightarrow> string \<Rightarrow> string \<Rightarrow> 's world \<Rightarrow> (error option \<times> 's world) option"
  where
  "WaitForAttachmentState fuel c volumeID state w =
     ExponentialBackoff 13 (verifyVolumeFunc fuel c volumeID state) w"

subsection \<open>Attach\<close>

text \<open>
  Lines 552 to 569 of \<^verbatim>\<open>AttachDisk\<close>: the fresh attach call. The result is the early return
  of the function, if there is one. The argument \<^verbatim>\<open>c.ec2.(*ec2.EC2)\<close> is evaluated before
  the request is sent, and panics for every other dynamic type.
\<close>

definition AttachDisk_attach ::
  "'s cloud \<Rightarrow> string \<Rightarrow> string \<Rightarrow> Device \<Rightarrow> 's world \<Rightarrow> string outcome option \<times> 's world"
  where
  "AttachDisk_attach c volumeID nodeID device w =
     (if \<not> IsAlreadyAssigned device then
        (if \<not> IsSDKClient (ec2 c) then (Some (Panic TypeAssertionFailed), w)
         else
           (case invoke (SendAttachVolume (ec2 c) \<lparr>InstanceId = nodeID, AttVolumeId = volumeID\<rparr>)
                   (CallAttachVolume \<lparr>InstanceId = nodeID, AttVolumeId = volumeID\<rparr>) w of
              (Inl err, w') \<Rightarrow>
                if isAWSError err ''VolumeInUse'' then (Some (Error ErrAlreadyExists), w')
                else (Some (Error (Errorf ''could not attach volume %q to node %q: %v''
                                     [S volumeID, S nodeID] (Some err))), w')
            | (Inr resp, w') \<Rightarrow> (None, w')))
      else (None, w))"

text \<open>
  \<^verbatim>\<open>AttachDisk\<close> returns the device path or an error, or panics. Beside the outcome stands
  the device as the call leaves it (\<open>None\<close> when none was acquired): the deferred
  \<^verbatim>\<open>device.Release(false)\<close> runs on every exit after the device was acquired, also on a
  panic.
\<close>

definition AttachDisk ::
  "nat \<Rightarrow> 's cloud \<Rightarrow> string \<Rightarrow> string \<Rightarrow> 's world
     \<Rightarrow> ((string outcome \<times> Device option) \<times> 's world) option" where
  "AttachDisk fuel c volumeID nodeID w =
     (case getInstance fuel c nodeID w of
        None \<Rightarrow> None
      | Some (Inl err, w1) \<Rightarrow> Some ((Error err, None), w1)
      | Some (Inr instance, w1) \<Rightarrow>
          (case NewDevice (dm c) instance volumeID of
             Inl err \<Rightarrow> Some ((Error err, None), w1)
           | Inr device \<Rightarrow>
               (case AttachDisk_attach c volumeID nodeID device w1 of
                  (Some early, w2) \<Rightarrow> Some ((early, Some (Release False device)), w2)
                | (None, w2) \<Rightarrow>
                    (case WaitForAttachmentState fuel c volumeID ''attached'' w2 of
                       None \<Rightarrow> None
                     | Some (Some err, w3) \<Rightarrow>
                         Some ((Error err, Some (Release False (Taint device))), w3)
                     | Some (None, w3) \<Rightarrow>
                         Some ((Ok (Path device), Some (Release False device)), w3)))))"

subsection \<open>Resize\<close>

definition getLatestVolumeModification ::
  "'s cloud \<Rightarrow> string \<Rightarrow> 's world \<Rightarrow> (error + VolumeModification) \<times> 's world" where
  "getLatestVolumeModification c volumeID w =
     (case invoke (DescribeVolumesModificationsWithContext (ec2 c) \<lparr>ModsVolumeIds = [volumeID]\<rparr>)
             (CallDescribeVolumesModifications \<lparr>ModsVolumeIds = [volumeID]\<rparr>) w of
        (Inl err, w') \<Rightarrow>
          (Inl (Errorf ''error describing modifications in volume %q: %v''
                  [S volumeID] (Some err)), w')
      | (Inr mods, w') \<Rightarrow>
          if length (VolumesModifications mods) = 0
          then (Inl (Errorf ''could not find any modifications for volume %q''
                       [S volumeID] None), w')
          else (Inr (VolumesModifications mods ! (length (VolumesModifications mods) - 1)), w'))"

text \<open>
  The closure of \<^verbatim>\<open>waitForVolumeSize\<close> captures the variable \<^verbatim>\<open>modVolSizeGiB\<close>: the
  state of the backoff is that variable and the world.
\<close>

definition waitForVolumeSize_condition ::
  "'s cloud \<Rightarrow> string \<Rightarrow> int64 \<times> 's world
     \<Rightarrow> ((bool \<times> error option) \<times> int64 \<times> 's world) option" where
  "waitForVolumeSize_condition c volumeID st =
     (case st of (modVolSizeGiB, w) \<Rightarrow>
        (case getLatestVolumeModification c volumeID w of
           (Inl err, w') \<Rightarrow> Some ((False, Some err), (modVolSizeGiB, w'))
         | (Inr m, w') \<Rightarrow>
             if StringValue (ModificationState m) = VolumeModificationStateCompleted
                \<or> StringValue (ModificationState m) = VolumeModificationStateOptimizing
             then Some ((True, None), (Int64Value (TargetSize m), w'))
             else Some ((False, None), (modVolSizeGiB, w'))))"

definition waitForVolumeSize ::
  "'s cloud \<Rightarrow> string \<Rightarrow> 's world \<Rightarrow> ((error + int64) \<times> 's world) option" where
  "waitForVolumeSize c volumeID w =
     (case ExponentialBackoff 20 (waitForVolumeSize_condition c volumeID) (0, w) of
        None \<Rightarrow> None
      | Some (Some waitErr, (modVolSizeGiB, w')) \<Rightarrow> Some (Inl waitErr, w')
      | Some (None, (modVolSizeGiB, w')) \<Rightarrow> Some (Inr modVolSizeGiB, w'))"

text \<open>
  Lines 1096 to 1105 of \<^verbatim>\<open>ResizeDisk\<close>, from the modification record \<^verbatim>\<open>mod\<close> on. Reading
  \<^verbatim>\<open>mod.ModificationState\<close> through a nil \<^verbatim>\<open>mod\<close> is a nil pointer dereference.
\<close>

definition ResizeDisk_finish ::
  "'s cloud \<Rightarrow> string \<Rightarrow> VolumeModification option \<Rightarrow> 's world
     \<Rightarrow> (int64 outcome \<times> 's world) option" where
  "ResizeDisk_finish c volumeID modif w =
     (case modif of
        None \<Rightarrow> Some (Panic NilPointerDereference, w)
      | Some m \<Rightarrow>
          if StringValue (ModificationState m) = VolumeModificationStateCompleted
             \<or> StringValue (ModificationState m) = VolumeModificationStateOptimizing
          then Some (Ok (Int64Value (TargetSize m)), w)
          else
            (case waitForVolumeSize c volumeID w of
               None \<Rightarrow> None
             | Some (Inl err, w') \<Rightarrow> Some (Error err, w')
             | Some (Inr n, w') \<Rightarrow> Some (Ok n, w')))"

definition ResizeDisk ::
  "util \<Rightarrow> nat \<Rightarrow> 's cloud \<Rightarrow> string \<Rightarrow> int64 \<Rightarrow> 's world
     \<Rightarrow> (int64 outcome \<times> 's world) option" where
  "ResizeDisk u fuel c volumeID newSizeBytes w =
     (case getVolume fuel c \<lparr>VolFilters = [], VolumeIds = [volumeID], VolNextToken = None\<rparr> w of
        None \<Rightarrow> None
      | Some (Inl err, _, w1) \<Rightarrow> Some (Error err, w1)
      | Some (Inr volume, _, w1) \<Rightarrow>
          if RoundUpGiB u newSizeBytes \<le>s Int64Value (Size volume)
          then Some (Ok (Int64Value (Size volume)), w1)
          else
            (case invoke (ModifyVolumeWithContext (ec2 c)
                            \<lparr>ModVolumeId = volumeID, ModSize = RoundUpGiB u newSizeBytes\<rparr>)
                    (CallModifyVolume
                       \<lparr>ModVolumeId = volumeID, ModSize = RoundUpGiB u newSizeBytes\<rparr>) w1 of
               (Inl err, w2) \<Rightarrow>
                 if \<not> isAWSErrorIncorrectModification err
                 then Some (Error (Errorf ''could not modify AWS volume %q: %v''
                                     [S volumeID] (Some err)), w2)
                 else
                   (case getLatestVolumeModification c volumeID w2 of
                      (Inl err', w3) \<Rightarrow> Some (Error err', w3)
                    | (Inr m, w3) \<Rightarrow> ResizeDisk_finish c volumeID (Some m) w3)
             | (Inr response, w2) \<Rightarrow>
                 ResizeDisk_finish c volumeID (VolumeModification response) w2))"

subsection \<open>Create\<close>

text \<open>
  The switch on the volume type (lines 446 to 462): the type to create and the IOPS, or the
  error for an unknown type. \<^verbatim>\<open>IOPSPerGB\<close> is a Go \<^verbatim>\<open>int\<close>; the options carry its
  conversion \<^verbatim>\<open>int64(diskOptions.IOPSPerGB)\<close>. The product is Go's: it wraps at 64 bits.
\<close>

definition CreateDisk_iops :: "int64 \<Rightarrow> int64 \<Rightarrow> int64" where
  "CreateDisk_iops capacityGiB iopsPerGB =
     (let iops = capacityGiB * iopsPerGB;
          iops = (if iops <s MinTotalIOPS then MinTotalIOPS else iops);
          iops = (if MaxTotalIOPS <s iops then MaxTotalIOPS else iops)
      in iops)"

definition CreateDisk_type :: "util \<Rightarrow> DiskOptions \<Rightarrow> error + string \<times> int64" where
  "CreateDisk_type u diskOptions =
     (if VolumeType diskOptions = VolumeTypeGP2 \<or> VolumeType diskOptions = VolumeTypeST2
         \<or> VolumeType diskOptions = VolumeTypeStandard
      then Inr (VolumeType diskOptions, 0)
      else if VolumeType diskOptions = VolumeTypeIO1 \<or> VolumeType diskOptions = VolumeTypeIO2
      then Inr (VolumeType diskOptions,
                CreateDisk_iops (BytesToGiB u (CapacityBytes diskOptions)) (IOPSPerGB diskOptions))
      else if VolumeType diskOptions = []
      then Inr (DefaultVolumeType, 0)
      else Inl (Errorf ''invalid AWS VolumeType %q'' [S (VolumeType diskOptions)] None))"

fun randomAvailabilityZone_names ::
  "AvailabilityZone_ec2 list \<Rightarrow> string list \<Rightarrow> string list outcome" where
  "randomAvailabilityZone_names [] zones = Ok zones"
| "randomAvailabilityZone_names (zone # rest) zones =
     (case ZoneName zone of
        None \<Rightarrow> Panic NilPointerDereference
      | Some name \<Rightarrow> randomAvailabilityZone_names rest (zones @ [name]))"

definition randomAvailabilityZone ::
  "'s cloud \<Rightarrow> string \<Rightarrow> 's world \<Rightarrow> string outcome \<times> 's world" where
  "randomAvailabilityZone c rgn w =
     (case invoke (DescribeAvailabilityZonesWithContext (ec2 c))
             CallDescribeAvailabilityZones w of
        (Inl err, w') \<Rightarrow> (Error err, w')
      | (Inr response, w') \<Rightarrow>
          (case randomAvailabilityZone_names (AvailabilityZones response) [] of
             Panic p \<Rightarrow> (Panic p, w')
           | Error err \<Rightarrow> (Error err, w')
           | Ok zones \<Rightarrow>
               if length zones = 0 then (Panic IndexOutOfRange, w')
               else (Ok (zones ! 0), w')))"

definition createVolumeInput ::
  "util \<Rightarrow> DiskOptions \<Rightarrow> string \<Rightarrow> int64 \<Rightarrow> string \<Rightarrow> CreateVolumeInput" where
  "createVolumeInput u diskOptions createType iops zone =
     \<lparr>ReqAvailabilityZone = zone,
      ReqSize = BytesToGiB u (CapacityBytes diskOptions),
      ReqVolumeType = createType,
      TagSpecifications =
        [\<lparr>ResourceType = ''volume'',
          SpecTags = map (\<lambda>(k, v). \<lparr>Key = k, TagValue = v\<rparr>) (Tags diskOptions)\<rparr>],
      ReqEncrypted = (if 0 < length (KmsKeyID diskOptions) then True else Encrypted diskOptions),
      KmsKeyId = (if 0 < length (KmsKeyID diskOptions) then Some (KmsKeyID diskOptions) else None),
      Iops = (if 0 <s iops then Some iops else None),
      ReqSnapshotId = (if 0 < length (OptSnapshotID diskOptions)
                       then Some (OptSnapshotID diskOptions) else None)\<rparr>"

text \<open>
  The closure of \<^verbatim>\<open>waitForVolume\<close> shares one request with every run of the condition, and
  \<^verbatim>\<open>getVolume\<close> writes continuation tokens into it: the state of the poll is the request
  and the world.
\<close>

definition waitForVolume_condition ::
  "nat \<Rightarrow> 's cloud \<Rightarrow> DescribeVolumesInput \<times> 's world
     \<Rightarrow> ((bool \<times> error option) \<times> DescribeVolumesInput \<times> 's world) option" where
  "waitForVolume_condition fuel c st =
     (case st of (request, w) \<Rightarrow>
        (case getVolume fuel c request w of
           None \<Rightarrow> None
         | Some (Inl err, request', w') \<Rightarrow> Some ((True, Some err), (request', w'))
         | Some (Inr vol, request', w') \<Rightarrow>
             (case State vol of
                Some s \<Rightarrow> Some ((s = ''available'', None), (request', w'))
              | None \<Rightarrow> Some ((False, None), (request', w')))))"

definition waitForVolume ::
  "nat \<Rightarrow> nat \<Rightarrow> 's cloud \<Rightarrow> string \<Rightarrow> 's world \<Rightarrow> (error option \<times> 's world) option" where
  "waitForVolume fuel ticks c volumeID w =
     (case Poll ticks (waitForVolume_condition fuel c)
             (\<lparr>VolFilters = [], VolumeIds = [volumeID], VolNextToken = None\<rparr>, w) of
        None \<Rightarrow> None
      | Some (err, (request', w')) \<Rightarrow> Some (err, w'))"

definition CreateDisk ::
  "util \<Rightarrow> nat \<Rightarrow> nat \<Rightarrow> 's cloud \<Rightarrow> string \<Rightarrow> DiskOptions \<Rightarrow> 's world
     \<Rightarrow> (Disk outcome \<times> 's world) option" where
  "CreateDisk u fuel ticks c volumeName diskOptions w =
     (case CreateDisk_type u diskOptions of
        Inl err \<Rightarrow> Some (Error err, w)
      | Inr (createType, iops) \<Rightarrow>
          (case (if OptAvailabilityZone diskOptions = []
                 then randomAvailabilityZone c (region c) w
                 else (Ok (OptAvailabilityZone diskOptions), w)) of
             (Panic p, w1) \<Rightarrow> Some (Panic p, w1)
           | (Error err, w1) \<Rightarrow>
               Some (Error (Errorf ''failed to get availability zone %s'' [] (Some err)), w1)
           | (Ok zone, w1) \<Rightarrow>
               (case invoke (CreateVolumeWithContext (ec2 c)
                               (createVolumeInput u diskOptions createType iops zone))
                       (CallCreateVolume (createVolumeInput u diskOptions createType iops zone))
                       w1 of
                  (Inl err, w2) \<Rightarrow>
                    if isAWSErrorSnapshotNotFound err then Some (Error ErrNotFound, w2)
                    else Some (Error (Errorf ''could not create volume in EC2: %v'' []
                                        (Some err)), w2)
                | (Inr response, w2) \<Rightarrow>
                    if length (StringValue (VolumeId response)) = 0
                    then Some (Error (Errorf ''volume ID was not returned by CreateVolume''
                                        [] None), w2)
                    else if Int64Value (Size response) = 0
                    then Some (Error (Errorf ''disk size was not returned by CreateVolume''
                                        [] None), w2)
                    else
                      (case waitForVolume fuel ticks c (StringValue (VolumeId response)) w2 of
                         None \<Rightarrow> None
                       | Some (Some err, w3) \<Rightarrow>
                           Some (Error (Errorf
                                   ''failed to get an available volume in EC2: %v'' []
                                   (Some err)), w3)
                       | Some (None, w3) \<Rightarrow>
                           Some (Ok \<lparr>VolumeID = StringValue (VolumeId response),
                                     CapacityGiB = Int64Value (Size response),
                                     AvailabilityZone = zone,
                                     SnapshotID = OptSnapshotID diskOptions\<rparr>, w3)))))"

section \<open>What the provider answers\<close>

text \<open>
  The hypotheses of the properties speak about the provider, not about the code. These
  predicates follow the spec's words for a paginated describe call ("repeatedly fetch
  pages, feeding the token back into the request, until the token is empty") and for the
  state of a modification ("completed" or "optimizing" is terminal); the code's loops are
  compared with them.

  \<open>provider_lists e request s pages s'\<close>: asked with \<open>request\<close> in state \<open>s\<close>, the provider
  answers with the pages in order, each further page being asked for with the token of the
  page before it, and the last page carrying no token; \<open>s'\<close> is the provider's state after
  the last page. \<open>page_requests\<close> are the requests that ask for these pages.
\<close>

fun provider_lists ::
  "'s EC2 \<Rightarrow> DescribeVolumesInput \<Rightarrow> 's \<Rightarrow> DescribeVolumesOutput list \<Rightarrow> 's \<Rightarrow> bool" where
  "provider_lists e request s [] s' = False"
| "provider_lists e request s (page # rest) s' =
     (case DescribeVolumesWithContext e request s of
        (Inl err, s1) \<Rightarrow> False
      | (Inr response, s1) \<Rightarrow>
          response = page \<and>
          (if StringValue (VolsNextToken page) = [] then rest = [] \<and> s' = s1
           else provider_lists e (request\<lparr>VolNextToken := VolsNextToken page\<rparr>) s1 rest s'))"

fun page_requests ::
  "DescribeVolumesInput \<Rightarrow> DescribeVolumesOutput list \<Rightarrow> DescribeVolumesInput list" where
  "page_requests request [] = []"
| "page_requests request (page # rest) =
     request # page_requests (request\<lparr>VolNextToken := VolsNextToken page\<rparr>) rest"

text \<open>
  \<open>provider_answers e volumeID s outs s'\<close>: asked for the modifications of the volume again
  and again from state \<open>s\<close> on, the provider answers with \<open>outs\<close>, in order, and is then in
  state \<open>s'\<close>. An answer is done when its latest (last) record is in a terminal state,
  pending when its latest record is in any other state.
\<close>

fun provider_answers ::
  "'s EC2 \<Rightarrow> string \<Rightarrow> 's \<Rightarrow> DescribeVolumesModificationsOutput list \<Rightarrow> 's \<Rightarrow> bool" where
  "provider_answers e volumeID s [] s' = (s' = s)"
| "provider_answers e volumeID s (out # rest) s' =
     (case DescribeVolumesModificationsWithContext e \<lparr>ModsVolumeIds = [volumeID]\<rparr> s of
        (Inl err, s1) \<Rightarrow> False
      | (Inr response, s1) \<Rightarrow> response = out \<and> provider_answers e volumeID s1 rest s')"

definition answer_done :: "DescribeVolumesModificationsOutput \<Rightarrow> bool" where
  "answer_done out =
     (VolumesModifications out \<noteq> [] \<and>
      (StringValue (ModificationState (last (VolumesModifications out))) = ''completed'' \<or>
       StringValue (ModificationState (last (VolumesModifications out))) = ''optimizing''))"

definition answer_pending :: "DescribeVolumesModificationsOutput \<Rightarrow> bool" where
  "answer_pending out =
     (VolumesModifications out \<noteq> [] \<and>
      StringValue (ModificationState (last (VolumesModifications out))) \<noteq> ''completed'' \<and>
      StringValue (ModificationState (last (VolumesModifications out))) \<noteq> ''optimizing'')"

definition answer_target :: "DescribeVolumesModificationsOutput \<Rightarrow> int64" where
  "answer_target out = Int64Value (TargetSize (last (VolumesModifications out)))"

section \<open>Concrete providers\<close>

text \<open>
  Scripted providers on which the functions are run. The provider state counts the calls
  received, so that a provider can answer differently over time.
\<close>

definition ec2_unscripted :: "nat EC2" where
  "ec2_unscripted =
     \<lparr>IsSDKClient = True,
      DescribeVolumesWithContext = (\<lambda>req s. (Inl (OtherError ''unscripted''), Suc s)),
      CreateVolumeWithContext = (\<lambda>req s. (Inl (OtherError ''unscripted''), Suc s)),
      DeleteVolumeWithContext = (\<lambda>req s. (Inl (OtherError ''unscripted''), Suc s)),
      SendAttachVolume = (\<lambda>req s. (Inl (OtherError ''unscripted''), Suc s)),
      DescribeInstancesWithContext = (\<lambda>req s. (Inl (OtherError ''unscripted''), Suc s)),
      DeleteSnapshotWithContext = (\<lambda>req s. (Inl (OtherError ''unscripted''), Suc s)),
      DescribeSnapshotsWithContext = (\<lambda>req s. (Inl (OtherError ''unscripted''), Suc s)),
      ModifyVolumeWithContext = (\<lambda>req s. (Inl (OtherError ''unscripted''), Suc s)),
      DescribeVolumesModificationsWithContext =
        (\<lambda>req s. (Inl (OtherError ''unscripted''), Suc s)),
      DescribeAvailabilityZonesWithContext = (\<lambda>s. (Inl (OtherError ''unscripted''), Suc s))\<rparr>"

definition dm_fresh :: DeviceManager where
  "dm_fresh =
     \<lparr>NewDevice = (\<lambda>instance volumeID.
        Inr \<lparr>Path = ''/dev/xvdba'', IsAlreadyAssigned = False, isTainted = False,
             releases = []\<rparr>)\<rparr>"

definition cloud_of :: "nat EC2 \<Rightarrow> nat cloud" where
  "cloud_of e = \<lparr>region = ''us-test-1'', ec2 = e, dm = dm_fresh\<rparr>"

definition world0 :: "nat world" where
  "world0 = \<lparr>provider = 0, calls = []\<rparr>"

definition volume_of :: "string \<Rightarrow> int64 \<Rightarrow> Volume" where
  "volume_of vid gib =
     \<lparr>VolumeId = Some vid, Size = Some gib, VolAvailabilityZone = Some ''us-test-1a'',
      SnapshotId = None, State = Some ''available'', Attachments = []\<rparr>"

text \<open>Two volumes carry the same name tag; the provider lists them on two pages.\<close>

definition ec2_two_pages :: "nat EC2" where
  "ec2_two_pages = ec2_unscripted
     \<lparr>DescribeVolumesWithContext := (\<lambda>req s.
        if s = 0
        then (Inr \<lparr>Volumes = [volume_of ''vol-1'' 20], VolsNextToken = Some ''page2''\<rparr>, Suc s)
        else (Inr \<lparr>Volumes = [volume_of ''vol-2'' 20], VolsNextToken = None\<rparr>, Suc s))\<rparr>"

text \<open>The volume is already gone; deleting a snapshot succeeds.\<close>

definition ec2_volume_gone :: "nat EC2" where
  "ec2_volume_gone = ec2_unscripted
     \<lparr>DeleteVolumeWithContext := (\<lambda>req s.
        (Inl (AwsError ''InvalidVolume.NotFound'' ''The volume does not exist''), Suc s)),
      DeleteSnapshotWithContext := (\<lambda>req s. (Inr (), Suc s))\<rparr>"

text \<open>
  One volume of 1 GiB. A modification is in flight, so the modify call is rejected. The
  provider answers a fetch of the modifications with two records, an older one that is
  completed and the one in flight, which is "modifying" until the provider has seen four
  calls and "optimizing" from then on.
\<close>

definition busy_answer :: "string \<Rightarrow> DescribeVolumesModificationsOutput" where
  "busy_answer state =
     \<lparr>VolumesModifications =
        [\<lparr>ModificationState = Some ''completed'', TargetSize = Some 1\<rparr>,
         \<lparr>ModificationState = Some state, TargetSize = Some 2\<rparr>]\<rparr>"

definition ec2_resize_busy :: "nat EC2" where
  "ec2_resize_busy = ec2_unscripted
     \<lparr>DescribeVolumesWithContext := (\<lambda>req s.
        (Inr \<lparr>Volumes = [volume_of ''vol-1'' 1], VolsNextToken = None\<rparr>, Suc s)),
      ModifyVolumeWithContext := (\<lambda>req s.
        (Inl (AwsError ''IncorrectModificationState'' ''modification in progress''), Suc s)),
      DescribeVolumesModificationsWithContext := (\<lambda>req s.
        (Inr (busy_answer (if s < 4 then ''modifying'' else ''optimizing'')), Suc s))\<rparr>"

text \<open>One volume of 1 GiB. The modify call succeeds with an output that has no record.\<close>

definition ec2_modify_no_record :: "nat EC2" where
  "ec2_modify_no_record = ec2_unscripted
     \<lparr>DescribeVolumesWithContext := (\<lambda>req s.
        (Inr \<lparr>Volumes = [volume_of ''vol-1'' 1], VolsNextToken = None\<rparr>, Suc s)),
      ModifyVolumeWithContext := (\<lambda>req s. (Inr \<lparr>VolumeModification = None\<rparr>, Suc s))\<rparr>"

text \<open>
  The instance exists. The first provider rejects the attach call with a code other than
  \<^verbatim>\<open>VolumeInUse\<close>, the second with \<^verbatim>\<open>VolumeInUse\<close>; the third is a transport that is
  not the SDK client.
\<close>

definition describe_one_instance ::
  "DescribeInstancesInput \<Rightarrow> nat \<Rightarrow> (error + DescribeInstancesOutput) \<times> nat" where
  "describe_one_instance req s =
     (Inr \<lparr>Reservations = [\<lparr>Instances = [\<lparr>InstInstanceId = Some ''i-1''\<rparr>]\<rparr>],
           InstsNextToken = None\<rparr>, Suc s)"

definition ec2_attach_fails :: "nat EC2" where
  "ec2_attach_fails = ec2_unscripted
     \<lparr>DescribeInstancesWithContext := describe_one_instance,
      SendAttachVolume := (\<lambda>req s.
        (Inl (AwsError ''InvalidParameterValue'' ''the instance is in another zone''), Suc s))\<rparr>"

definition ec2_volume_in_use :: "nat EC2" where
  "ec2_volume_in_use = ec2_unscripted
     \<lparr>DescribeInstancesWithContext := describe_one_instance,
      SendAttachVolume := (\<lambda>req s.
        (Inl (AwsError ''VolumeInUse'' ''the volume is attached''), Suc s))\<rparr>"

definition ec2_mock :: "nat EC2" where
  "ec2_mock = ec2_unscripted
     \<lparr>IsSDKClient := False, DescribeInstancesWithContext := describe_one_instance\<rparr>"

text \<open>
  The provider lists two zones; the create call fails. The second provider lists no zone.
\<close>

definition ec2_two_zones :: "nat EC2" where
  "ec2_two_zones = ec2_unscripted
     \<lparr>DescribeAvailabilityZonesWithContext := (\<lambda>s.
        (Inr \<lparr>AvailabilityZones =
           [\<lparr>ZoneName = Some ''us-test-1b''\<rparr>, \<lparr>ZoneName = Some ''us-test-1a''\<rparr>]\<rparr>, Suc s))\<rparr>"

definition ec2_no_zones :: "nat EC2" where
  "ec2_no_zones = ec2_unscripted
     \<lparr>DescribeAvailabilityZonesWithContext := (\<lambda>s.
        (Inr \<lparr>AvailabilityZones = []\<rparr>, Suc s))\<rparr>"

definition options_io1 :: DiskOptions where
  "options_io1 =
     \<lparr>CapacityBytes = 4 * GiB, Tags = [(''CSIVolumeName'', ''vol-a'')],
      VolumeType = ''io1'', IOPSPerGB = 10, OptAvailabilityZone = ''us-test-1a'',
      Encrypted = False, KmsKeyID = [], OptSnapshotID = []\<rparr>"

text \<open>No volume carries the name tag.\<close>

definition ec2_no_volumes :: "nat EC2" where
  "ec2_no_volumes = ec2_unscripted
     \<lparr>DescribeVolumesWithContext := (\<lambda>req s.
        (Inr \<lparr>Volumes = [], VolsNextToken = None\<rparr>, Suc s))\<rparr>"

text \<open>The options of \<open>options_io1\<close> with a rate whose product with 4 GiB passes 64 bits.\<close>

definition options_overflow :: DiskOptions where
  "options_overflow = options_io1\<lparr>IOPSPerGB := 4611686018427389154\<rparr>"

section \<open>Properties\<close>

subsection \<open>The code's paging loop and the provider's pages\<close>

lemma getVolume_loop_lists:
  "provider_lists (ec2 c) request (provider w) pages s' \<Longrightarrow> length pages \<le> fuel \<Longrightarrow>
     getVolume_loop fuel c request volumes w =
       Some (Inr (volumes @ concat (map Volumes pages)), last (page_requests request pages),
             \<lparr>provider = s',
              calls = calls w @ map CallDescribeVolumes (page_requests request pages)\<rparr>)"
proof (induction pages arbitrary: fuel request volumes w)
  case Nil
  then show ?case by simp
next
  case (Cons page rest)
  from Cons.prems(2) obtain n where fuel: "fuel = Suc n" "length rest \<le> n"
    by (cases fuel) auto
  obtain a s1 where d: "DescribeVolumesWithContext (ec2 c) request (provider w) = (a, s1)"
    by (cases "DescribeVolumesWithContext (ec2 c) request (provider w)")
  from Cons.prems(1) d have a: "a = Inr page"
    by (cases a) auto
  let ?w1 = "\<lparr>provider = s1, calls = calls w @ [CallDescribeVolumes request]\<rparr>"
  have inv: "invoke (DescribeVolumesWithContext (ec2 c) request) (CallDescribeVolumes request) w
               = (Inr page, ?w1)"
    using d a by (simp add: invoke_def)
  show ?case
  proof (cases "StringValue (VolsNextToken page) = []")
    case True
    then have "rest = []" "s' = s1" using Cons.prems(1) d a by simp_all
    then show ?thesis using inv True fuel by simp
  next
    case False
    then have more: "provider_lists (ec2 c) (request\<lparr>VolNextToken := VolsNextToken page\<rparr>)
                       (provider ?w1) rest s'"
      using Cons.prems(1) d a by simp
    then have ne: "rest \<noteq> []" by (cases rest) auto
    then have pr: "page_requests (request\<lparr>VolNextToken := VolsNextToken page\<rparr>) rest \<noteq> []"
      by (cases rest) auto
    from Cons.IH [OF more fuel(2), of "volumes @ Volumes page"] show ?thesis
      using inv False fuel pr by simp
  qed
qed

lemma getVolume_lists:
  assumes "provider_lists (ec2 c) request (provider w) pages s'" and "length pages \<le> fuel"
  shows "getVolume fuel c request w =
           Some (if 1 < length (concat (map Volumes pages)) then Inl ErrMultiDisks
                 else if length (concat (map Volumes pages)) < 1 then Inl ErrNotFound
                 else Inr (concat (map Volumes pages) ! 0),
                 last (page_requests request pages),
                 \<lparr>provider = s',
                  calls = calls w @ map CallDescribeVolumes (page_requests request pages)\<rparr>)"
  using getVolume_loop_lists [OF assms, of "[]"] by (simp add: getVolume_def)


subsection \<open>Lookup by name\<close>

lemma getVolume_GetDiskByName:
  "GetDiskByName u fuel c name capacityBytes w =
     (case getVolume fuel c
             \<lparr>VolFilters = [\<lparr>Name = ''tag:CSIVolumeName'', Values = [name]\<rparr>],
              VolumeIds = [], VolNextToken = None\<rparr> w of
        None \<Rightarrow> None
      | Some (Inl err, _, w') \<Rightarrow> Some (Inl err, w')
      | Some (Inr volume, _, w') \<Rightarrow>
          if Int64Value (Size volume) \<noteq> BytesToGiB u capacityBytes
          then Some (Inl ErrDiskExistsDiffSize, w')
          else Some (Inr \<lparr>VolumeID = StringValue (VolumeId volume),
                          CapacityGiB = Int64Value (Size volume),
                          AvailabilityZone = StringValue (VolAvailabilityZone volume),
                          SnapshotID = StringValue (SnapshotId volume)\<rparr>, w'))"
  by (simp add: GetDiskByName_def VolumeNameTagKey_def)

text \<open>
  Claim C5. Let the provider list, for the filter on the name tag, the given pages, and let
  the fuel cover them. \<^verbatim>\<open>GetDiskByName\<close> asks for exactly these pages and then fails with
  \<open>ErrMultiDisks\<close> when the pages hold two or more volumes, with \<open>ErrNotFound\<close> when they
  hold none, with \<open>ErrDiskExistsDiffSize\<close> when the only volume has a size in GiB other
  than \<^verbatim>\<open>BytesToGiB(capacityBytes)\<close>, and returns the disk of that volume otherwise.
\<close>

theorem GetDiskByName_results:
  assumes "provider_lists (ec2 c)
             \<lparr>VolFilters = [\<lparr>Name = ''tag:CSIVolumeName'', Values = [name]\<rparr>],
              VolumeIds = [], VolNextToken = None\<rparr> (provider w) pages s'"
      and "length pages \<le> fuel"
  shows "GetDiskByName u fuel c name capacityBytes w =
           Some (if 2 \<le> length (concat (map Volumes pages)) then Inl ErrMultiDisks
                 else if length (concat (map Volumes pages)) = 0 then Inl ErrNotFound
                 else if Int64Value (Size (concat (map Volumes pages) ! 0))
                           \<noteq> BytesToGiB u capacityBytes
                 then Inl ErrDiskExistsDiffSize
                 else Inr \<lparr>VolumeID = StringValue (VolumeId (concat (map Volumes pages) ! 0)),
                           CapacityGiB = Int64Value (Size (concat (map Volumes pages) ! 0)),
                           AvailabilityZone =
                             StringValue (VolAvailabilityZone (concat (map Volumes pages) ! 0)),
                           SnapshotID =
                             StringValue (SnapshotId (concat (map Volumes pages) ! 0))\<rparr>,
                 \<lparr>provider = s',
                  calls = calls w @ map CallDescribeVolumes
                    (page_requests
                       \<lparr>VolFilters = [\<lparr>Name = ''tag:CSIVolumeName'', Values = [name]\<rparr>],
                        VolumeIds = [], VolNextToken = None\<rparr> pages)\<rparr>)"
proof -
  let ?vs = "concat (map Volumes pages)"
  consider (many) "2 \<le> length ?vs" | (none) "length ?vs = 0" | (one) "length ?vs = 1"
    by linarith
  then show ?thesis
  proof cases
    case many
    then show ?thesis
      using getVolume_lists [OF assms] by (simp add: getVolume_GetDiskByName)
  next
    case none
    then show ?thesis
      using getVolume_lists [OF assms] by (simp add: getVolume_GetDiskByName)
  next
    case one
    then show ?thesis
      using getVolume_lists [OF assms] by (simp add: getVolume_GetDiskByName)
  qed
qed

lemma two_pages_lists:
  "provider_lists (ec2 (cloud_of ec2_two_pages))
     \<lparr>VolFilters = [\<lparr>Name = ''tag:CSIVolumeName'', Values = [''vol-a'']\<rparr>],
      VolumeIds = [], VolNextToken = None\<rparr> (provider world0)
     [\<lparr>Volumes = [volume_of ''vol-1'' 20], VolsNextToken = Some ''page2''\<rparr>,
      \<lparr>Volumes = [volume_of ''vol-2'' 20], VolsNextToken = None\<rparr>] 2"
  by (simp add: cloud_of_def ec2_two_pages_def ec2_unscripted_def world0_def StringValue_def)

lemma one_volume_lists:
  "provider_lists (ec2 (cloud_of ec2_resize_busy))
     \<lparr>VolFilters = filters, VolumeIds = ids, VolNextToken = None\<rparr> (provider world0)
     [\<lparr>Volumes = [volume_of ''vol-1'' 1], VolsNextToken = None\<rparr>] 1"
  by (simp add: cloud_of_def ec2_resize_busy_def ec2_unscripted_def world0_def StringValue_def)

lemma no_volume_lists:
  "provider_lists (ec2 (cloud_of ec2_no_volumes))
     \<lparr>VolFilters = filters, VolumeIds = ids, VolNextToken = None\<rparr> (provider world0)
     [\<lparr>Volumes = [], VolsNextToken = None\<rparr>] 1"
  by (simp add: cloud_of_def ec2_no_volumes_def ec2_unscripted_def world0_def StringValue_def)

theorem GetDiskByName_results_witness:
  "GetDiskByName util_GiB 2 (cloud_of ec2_two_pages) ''vol-a'' (20 * GiB) world0
     = Some (Inl ErrMultiDisks,
             \<lparr>provider = 2, calls =
                [CallDescribeVolumes
                   \<lparr>VolFilters = [\<lparr>Name = ''tag:CSIVolumeName'', Values = [''vol-a'']\<rparr>],
                    VolumeIds = [], VolNextToken = None\<rparr>,
                 CallDescribeVolumes
                   \<lparr>VolFilters = [\<lparr>Name = ''tag:CSIVolumeName'', Values = [''vol-a'']\<rparr>],
                    VolumeIds = [], VolNextToken = Some ''page2''\<rparr>]\<rparr>) \<and>
   GetDiskByName util_GiB 1 (cloud_of ec2_no_volumes) ''vol-a'' (20 * GiB) world0
     = Some (Inl ErrNotFound,
             \<lparr>provider = 1, calls =
                [CallDescribeVolumes
                   \<lparr>VolFilters = [\<lparr>Name = ''tag:CSIVolumeName'', Values = [''vol-a'']\<rparr>],
                    VolumeIds = [], VolNextToken = None\<rparr>]\<rparr>) \<and>
   GetDiskByName util_GiB 1 (cloud_of ec2_resize_busy) ''vol-a'' (20 * GiB) world0
     = Some (Inl ErrDiskExistsDiffSize,
             \<lparr>provider = 1, calls =
                [CallDescribeVolumes
                   \<lparr>VolFilters = [\<lparr>Name = ''tag:CSIVolumeName'', Values = [''vol-a'']\<rparr>],
                    VolumeIds = [], VolNextToken = None\<rparr>]\<rparr>) \<and>
   GetDiskByName util_GiB 1 (cloud_of ec2_resize_busy) ''vol-a'' GiB world0
     = Some (Inr \<lparr>VolumeID = ''vol-1'', CapacityGiB = 1, AvailabilityZone = ''us-test-1a'',
                  SnapshotID = []\<rparr>,
             \<lparr>provider = 1, calls =
                [CallDescribeVolumes
                   \<lparr>VolFilters = [\<lparr>Name = ''tag:CSIVolumeName'', Values = [''vol-a'']\<rparr>],
                    VolumeIds = [], VolNextToken = None\<rparr>]\<rparr>)"
proof -
  have g20: "BytesToGiB util_GiB (20 * GiB) = 20"
    by (simp add: util_GiB_def GiB_def signed_divide_int_def)
  have g1: "BytesToGiB util_GiB GiB = 1"
    by (simp add: util_GiB_def GiB_def signed_divide_int_def)
  have le: "length [\<lparr>Volumes = [volume_of ''vol-1'' 20], VolsNextToken = Some ''page2''\<rparr>,
      \<lparr>Volumes = [volume_of ''vol-2'' 20], VolsNextToken = None\<rparr>] \<le> 2" by simp
  have le1: "length [\<lparr>Volumes = vs, VolsNextToken = None\<rparr>] \<le> 1" for vs :: "Volume list"
    by simp
  show ?thesis
    using GetDiskByName_results [OF two_pages_lists le,
            where u = util_GiB and capacityBytes = "20 * GiB"]
          GetDiskByName_results [OF no_volume_lists le1,
            where u = util_GiB and capacityBytes = "20 * GiB"]
          GetDiskByName_results [OF one_volume_lists le1,
            where u = util_GiB and capacityBytes = "20 * GiB"]
          GetDiskByName_results [OF one_volume_lists le1,
            where u = util_GiB and capacityBytes = GiB]
    by (simp add: g20 g1 world0_def volume_of_def Int64Value_def StringValue_def)
qed

subsection \<open>Delete\<close>

text \<open>
  Claim C6. When the provider answers the delete call with an error, \<^verbatim>\<open>DeleteDisk\<close>
  returns \<open>ErrNotFound\<close> itself if the error carries the code
  \<^verbatim>\<open>InvalidVolume.NotFound\<close>, and otherwise the error wrapped by \<^verbatim>\<open>fmt.Errorf\<close> with the
  name of the operation; when the provider succeeds it returns \<^verbatim>\<open>true\<close> and no error.
  \<^verbatim>\<open>DeleteSnapshot\<close> does the same with the code \<^verbatim>\<open>InvalidSnapshot.NotFound\<close>.
\<close>

theorem Delete_results:
  "(fst (DeleteVolumeWithContext (ec2 c) \<lparr>DelVolumeId = volumeID\<rparr> (provider w)) = Inl err \<longrightarrow>
      fst (DeleteDisk c volumeID w) =
        (False, Some (if isAWSError err ''InvalidVolume.NotFound'' then ErrNotFound
                      else Errorf ''DeleteDisk could not delete volume: %v'' [] (Some err)))) \<and>
   (fst (DeleteVolumeWithContext (ec2 c) \<lparr>DelVolumeId = volumeID\<rparr> (provider w)) = Inr ok \<longrightarrow>
      fst (DeleteDisk c volumeID w) = (True, None)) \<and>
   (fst (DeleteSnapshotWithContext (ec2 c) \<lparr>DelSnapshotId = snapshotID, DelDryRun = False\<rparr>
           (provider w)) = Inl err \<longrightarrow>
      fst (DeleteSnapshot c snapshotID w) =
        (False, Some (if isAWSError err ''InvalidSnapshot.NotFound'' then ErrNotFound
                      else Errorf ''DeleteSnapshot could not delete volume: %v'' [] (Some err)))) \<and>
   (fst (DeleteSnapshotWithContext (ec2 c) \<lparr>DelSnapshotId = snapshotID, DelDryRun = False\<rparr>
           (provider w)) = Inr ok \<longrightarrow>
      fst (DeleteSnapshot c snapshotID w) = (True, None))"
  by (auto simp: DeleteDisk_def DeleteSnapshot_def invoke_def isAWSErrorVolumeNotFound_def
        isAWSErrorSnapshotNotFound_def split: prod.splits sum.splits)

theorem Delete_results_witness:
  "fst (DeleteDisk (cloud_of ec2_volume_gone) ''vol-1'' world0) = (False, Some ErrNotFound) \<and>
   fst (DeleteDisk (cloud_of ec2_unscripted) ''vol-1'' world0) =
     (False, Some (Errorf ''DeleteDisk could not delete volume: %v'' []
                     (Some (OtherError ''unscripted'')))) \<and>
   fst (DeleteSnapshot (cloud_of ec2_volume_gone) ''snap-1'' world0) = (True, None)"
  using Delete_results [of "cloud_of ec2_volume_gone" "''vol-1''" world0
          "AwsError ''InvalidVolume.NotFound'' ''The volume does not exist''" "()" "''snap-1''"]
        Delete_results [of "cloud_of ec2_unscripted" "''vol-1''" world0
          "OtherError ''unscripted''" "()" "''snap-1''"]
  by (simp add: cloud_of_def ec2_volume_gone_def ec2_unscripted_def world0_def)

subsection \<open>Listing snapshots\<close>

lemma maxResults_window:
  "(0 <s (m::int64) \<and> m <s 5) = (m = 1 \<or> m = 2 \<or> m = 3 \<or> m = 4)"
proof
  assume a: "0 <s m \<and> m <s 5"
  then have "0 < sint m" "sint m < 5" by (simp_all add: word_sless_alt)
  then have "sint m = 1 \<or> sint m = 2 \<or> sint m = 3 \<or> sint m = 4" by arith
  moreover have "word_of_int (sint m) = m" by simp
  ultimately show "m = 1 \<or> m = 2 \<or> m = 3 \<or> m = 4"
    by (metis word_of_int_1 word_of_int_numeral)
next
  assume "m = 1 \<or> m = 2 \<or> m = 3 \<or> m = 4"
  then show "0 <s m \<and> m <s 5" by (auto simp: word_sless_alt)
qed

text \<open>
  Claim C8. For \<^verbatim>\<open>maxResults\<close> in 1, 2, 3, 4 \<^verbatim>\<open>ListSnapshots\<close> returns
  \<open>ErrInvalidMaxResults\<close> and leaves the world as it was: no provider call. For
  \<^verbatim>\<open>maxResults\<close> 0 or at least 5 it issues exactly the one describe call with that value,
  and \<open>ErrInvalidMaxResults\<close> can then only be an error the provider itself gave.
\<close>

theorem ListSnapshots_maxResults:
  "(m = 1 \<or> m = 2 \<or> m = 3 \<or> m = 4 \<longrightarrow>
      ListSnapshots u c volumeID m nextToken w = (Inl ErrInvalidMaxResults, w)) \<and>
   (m = 0 \<or> 5 \<le>s m \<longrightarrow>
      calls (snd (ListSnapshots u c volumeID m nextToken w)) =
        calls w @ [CallDescribeSnapshots (describeSnapshotsInput volumeID m nextToken)] \<and>
      MaxResults (describeSnapshotsInput volumeID m nextToken) = Some m \<and>
      (fst (ListSnapshots u c volumeID m nextToken w) = Inl ErrInvalidMaxResults \<longrightarrow>
         fst (DescribeSnapshotsWithContext (ec2 c)
                (describeSnapshotsInput volumeID m nextToken) (provider w))
           = Inl ErrInvalidMaxResults))"
proof (intro conjI impI)
  assume "m = 1 \<or> m = 2 \<or> m = 3 \<or> m = 4"
  then have "0 <s m \<and> m <s 5" by (simp add: maxResults_window)
  then show "ListSnapshots u c volumeID m nextToken w = (Inl ErrInvalidMaxResults, w)"
    by (simp add: ListSnapshots_def)
next
  assume a: "m = 0 \<or> 5 \<le>s m"
  have n: "\<not> (0 <s m \<and> m <s 5)"
    using a by (auto simp: word_sless_alt word_sle_eq)
  show "calls (snd (ListSnapshots u c volumeID m nextToken w)) =
        calls w @ [CallDescribeSnapshots (describeSnapshotsInput volumeID m nextToken)]"
    using n by (auto simp: ListSnapshots_def listSnapshots_def invoke_def Let_def
                  split: prod.splits sum.splits)
next
  show "MaxResults (describeSnapshotsInput volumeID m nextToken) = Some m"
    by (simp add: describeSnapshotsInput_def)
next
  assume a: "m = 0 \<or> 5 \<le>s m"
    and r: "fst (ListSnapshots u c volumeID m nextToken w) = Inl ErrInvalidMaxResults"
  have n: "\<not> (0 <s m \<and> m <s 5)"
    using a by (auto simp: word_sless_alt word_sle_eq)
  show "fst (DescribeSnapshotsWithContext (ec2 c)
                (describeSnapshotsInput volumeID m nextToken) (provider w))
           = Inl ErrInvalidMaxResults"
    using n r by (auto simp: ListSnapshots_def listSnapshots_def invoke_def Let_def
                    split: prod.splits sum.splits if_splits)
qed

theorem ListSnapshots_maxResults_witness:
  "ListSnapshots util_GiB (cloud_of ec2_unscripted) ''vol-1'' 3 [] world0
     = (Inl ErrInvalidMaxResults, world0) \<and>
   calls (snd (ListSnapshots util_GiB (cloud_of ec2_unscripted) ''vol-1'' 7 [] world0))
     = [CallDescribeSnapshots (describeSnapshotsInput ''vol-1'' 7 [])] \<and>
   calls (snd (ListSnapshots util_GiB (cloud_of ec2_unscripted) ''vol-1'' 0 [] world0))
     = [CallDescribeSnapshots (describeSnapshotsInput ''vol-1'' 0 [])]"
  using ListSnapshots_maxResults [of 3 util_GiB "cloud_of ec2_unscripted" "''vol-1''" "[]" world0]
        ListSnapshots_maxResults [of 7 util_GiB "cloud_of ec2_unscripted" "''vol-1''" "[]" world0]
        ListSnapshots_maxResults [of 0 util_GiB "cloud_of ec2_unscripted" "''vol-1''" "[]" world0]
  by (simp add: world0_def word_sle_eq)

subsection \<open>The describe calls of a lookup\<close>

lemma invoke_calls_eq: "invoke f cl w = (r, w') \<Longrightarrow> calls w' = calls w @ [cl]"
  by (auto simp: invoke_def split: prod.splits)

lemma getVolume_loop_calls:
  "getVolume_loop fuel c request volumes w = Some (r, request', w') \<Longrightarrow>
     \<exists>reqs. calls w' = calls w @ map CallDescribeVolumes reqs"
proof (induction fuel arbitrary: request volumes w)
  case 0
  then show ?case by simp
next
  case (Suc n)
  obtain a w1 where inv:
    "invoke (DescribeVolumesWithContext (ec2 c) request) (CallDescribeVolumes request) w = (a, w1)"
    by (cases "invoke (DescribeVolumesWithContext (ec2 c) request) (CallDescribeVolumes request) w")
  have c1: "calls w1 = calls w @ map CallDescribeVolumes [request]"
    using invoke_calls_eq [OF inv] by simp
  show ?case
  proof (cases a)
    case (Inl err)
    then have "w' = w1" using Suc.prems inv by simp
    then show ?thesis using c1 by blast
  next
    case (Inr response)
    show ?thesis
    proof (cases "StringValue (VolsNextToken response) = []")
      case True
      then have "w' = w1" using Suc.prems inv Inr by simp
      then show ?thesis using c1 by blast
    next
      case False
      then have "getVolume_loop n c (request\<lparr>VolNextToken := VolsNextToken response\<rparr>)
                   (volumes @ Volumes response) w1 = Some (r, request', w')"
        using Suc.prems inv Inr by simp
      from Suc.IH [OF this] obtain reqs where
        "calls w' = calls w1 @ map CallDescribeVolumes reqs" by blast
      then have "calls w' = calls w @ map CallDescribeVolumes (request # reqs)"
        using c1 by simp
      then show ?thesis by blast
    qed
  qed
qed

lemma getVolume_calls:
  assumes "getVolume fuel c request w = Some (r, request', w')"
  shows "\<exists>reqs. calls w' = calls w @ map CallDescribeVolumes reqs"
proof -
  from assms obtain r0 where "getVolume_loop fuel c request [] w = Some (r0, request', w')"
    by (auto simp: getVolume_def split: option.splits sum.splits if_splits)
  then show ?thesis by (rule getVolume_loop_calls)
qed

text \<open>
  Fuel only bounds the pages: a loop that ends within some fuel ends with the same result
  within any larger fuel.
\<close>

lemma getVolume_loop_fuel:
  "getVolume_loop n c request volumes w = Some res \<Longrightarrow> n \<le> k \<Longrightarrow>
     getVolume_loop k c request volumes w = Some res"
proof (induction n arbitrary: k request volumes w)
  case 0
  then show ?case by simp
next
  case (Suc n)
  then obtain k' where k: "k = Suc k'" "n \<le> k'"
    by (cases k) auto
  obtain a w1 where inv:
    "invoke (DescribeVolumesWithContext (ec2 c) request) (CallDescribeVolumes request) w = (a, w1)"
    by (cases "invoke (DescribeVolumesWithContext (ec2 c) request) (CallDescribeVolumes request) w")
  show ?case
  proof (cases a)
    case (Inl err)
    then show ?thesis using Suc.prems(1) inv k by simp
  next
    case (Inr response)
    show ?thesis
    proof (cases "StringValue (VolsNextToken response) = []")
      case True
      then show ?thesis using Suc.prems(1) inv Inr k by simp
    next
      case False
      then have "getVolume_loop n c (request\<lparr>VolNextToken := VolsNextToken response\<rparr>)
                   (volumes @ Volumes response) w1 = Some res"
        using Suc.prems(1) inv Inr by simp
      from Suc.IH [OF this k(2)] show ?thesis
        using inv Inr False k by simp
    qed
  qed
qed

lemma getVolume_fuel:
  assumes "getVolume n c request w = Some res" and "n \<le> k"
  shows "getVolume k c request w = Some res"
proof -
  from assms(1) obtain l where l: "getVolume_loop n c request [] w = Some l"
    by (cases "getVolume_loop n c request [] w") (auto simp: getVolume_def)
  from getVolume_loop_fuel [OF l assms(2)] l assms(1) show ?thesis
    by (simp add: getVolume_def)
qed

subsection \<open>Resize\<close>

lemma ResizeDisk_modify_ok:
  assumes "getVolume fuel c \<lparr>VolFilters = [], VolumeIds = [volumeID], VolNextToken = None\<rparr> w
             = Some (Inr volume, request', w1)"
      and "\<not> RoundUpGiB u newSizeBytes \<le>s Int64Value (Size volume)"
      and "invoke (ModifyVolumeWithContext (ec2 c)
                     \<lparr>ModVolumeId = volumeID, ModSize = RoundUpGiB u newSizeBytes\<rparr>)
             (CallModifyVolume \<lparr>ModVolumeId = volumeID, ModSize = RoundUpGiB u newSizeBytes\<rparr>) w1
             = (Inr response, w2)"
  shows "ResizeDisk u fuel c volumeID newSizeBytes w =
           ResizeDisk_finish c volumeID (VolumeModification response) w2"
  using assms by (simp add: ResizeDisk_def)

lemma ResizeDisk_modify_busy:
  assumes "getVolume fuel c \<lparr>VolFilters = [], VolumeIds = [volumeID], VolNextToken = None\<rparr> w
             = Some (Inr volume, request', w1)"
      and "\<not> RoundUpGiB u newSizeBytes \<le>s Int64Value (Size volume)"
      and "invoke (ModifyVolumeWithContext (ec2 c)
                     \<lparr>ModVolumeId = volumeID, ModSize = RoundUpGiB u newSizeBytes\<rparr>)
             (CallModifyVolume \<lparr>ModVolumeId = volumeID, ModSize = RoundUpGiB u newSizeBytes\<rparr>) w1
             = (Inl (AwsError ''IncorrectModificationState'' msg), w2)"
      and "getLatestVolumeModification c volumeID w2 = (Inr m, w3)"
  shows "ResizeDisk u fuel c volumeID newSizeBytes w = ResizeDisk_finish c volumeID (Some m) w3"
  using assms by (simp add: ResizeDisk_def isAWSErrorIncorrectModification_def)

lemma getLatest_calls:
  "getLatestVolumeModification c volumeID w = (r, w') \<Longrightarrow>
     calls w' = calls w @ [CallDescribeVolumesModifications \<lparr>ModsVolumeIds = [volumeID]\<rparr>]"
  by (auto simp: getLatestVolumeModification_def invoke_def split: prod.splits sum.splits if_splits)

lemma size_condition:
  "waitForVolumeSize_condition c volumeID (n0, w) =
     (case getLatestVolumeModification c volumeID w of
        (Inl err, w') \<Rightarrow> Some ((False, Some err), (n0, w'))
      | (Inr m, w') \<Rightarrow>
          if StringValue (ModificationState m) = ''completed''
             \<or> StringValue (ModificationState m) = ''optimizing''
          then Some ((True, None), (Int64Value (TargetSize m), w'))
          else Some ((False, None), (n0, w')))"
  by (simp add: waitForVolumeSize_condition_def VolumeModificationStateCompleted_def
        VolumeModificationStateOptimizing_def split: prod.splits sum.splits)

lemma backoff_size:
  "ExponentialBackoff k (waitForVolumeSize_condition c volumeID) (n0, w) = Some (e, (n, w')) \<Longrightarrow>
     (\<exists>j \<le> k. calls w' =
        calls w @ replicate j (CallDescribeVolumesModifications \<lparr>ModsVolumeIds = [volumeID]\<rparr>)
        \<and> (e = Some ErrWaitTimeout \<and> j = k
            \<or> (\<exists>w'' err. e = Some err \<and> getLatestVolumeModification c volumeID w'' = (Inl err, w'))
            \<or> (\<exists>w'' m. e = None \<and> getLatestVolumeModification c volumeID w'' = (Inr m, w')
                  \<and> (StringValue (ModificationState m) = ''completed''
                       \<or> StringValue (ModificationState m) = ''optimizing'')
                  \<and> n = Int64Value (TargetSize m))))"
proof (induction k arbitrary: n0 w)
  case 0
  then show ?case by auto
next
  case (Suc k)
  obtain r w1 where g: "getLatestVolumeModification c volumeID w = (r, w1)"
    by (cases "getLatestVolumeModification c volumeID w")
  have c1: "calls w1 = calls w @ [CallDescribeVolumesModifications \<lparr>ModsVolumeIds = [volumeID]\<rparr>]"
    by (rule getLatest_calls [OF g])
  show ?case
  proof (cases r)
    case (Inl err)
    then have "e = Some err" "w' = w1"
      using Suc.prems g by (simp_all add: size_condition)
    then have "calls w' = calls w @ replicate 1 (CallDescribeVolumesModifications \<lparr>ModsVolumeIds = [volumeID]\<rparr>)"
      and "\<exists>w'' err. e = Some err \<and> getLatestVolumeModification c volumeID w'' = (Inl err, w')"
      using c1 g Inl by auto
    then show ?thesis by (metis One_nat_def Suc_le_mono le0)
  next
    case (Inr m)
    show ?thesis
    proof (cases "StringValue (ModificationState m) = ''completed''
                       \<or> StringValue (ModificationState m) = ''optimizing''")
      case True
      then have "e = None" "w' = w1" "n = Int64Value (TargetSize m)"
        using Suc.prems g Inr
        by (auto simp: size_condition)
      then have "calls w' = calls w @ replicate 1 (CallDescribeVolumesModifications \<lparr>ModsVolumeIds = [volumeID]\<rparr>)"
        and "\<exists>w'' m. e = None \<and> getLatestVolumeModification c volumeID w'' = (Inr m, w')
                  \<and> (StringValue (ModificationState m) = ''completed''
                       \<or> StringValue (ModificationState m) = ''optimizing'')
                  \<and> n = Int64Value (TargetSize m)"
        using c1 g Inr True by auto
      then show ?thesis by (metis One_nat_def Suc_le_mono le0)
    next
      case False
      then have "ExponentialBackoff k (waitForVolumeSize_condition c volumeID) (n0, w1)
                   = Some (e, (n, w'))"
        using Suc.prems g Inr
        by (auto simp: size_condition)
      from Suc.IH [OF this] obtain j where j: "j \<le> k"
        "calls w' = calls w1 @ replicate j (CallDescribeVolumesModifications \<lparr>ModsVolumeIds = [volumeID]\<rparr>)"
        "e = Some ErrWaitTimeout \<and> j = k
            \<or> (\<exists>w'' err. e = Some err \<and> getLatestVolumeModification c volumeID w'' = (Inl err, w'))
            \<or> (\<exists>w'' m. e = None \<and> getLatestVolumeModification c volumeID w'' = (Inr m, w')
                  \<and> (StringValue (ModificationState m) = ''completed''
                       \<or> StringValue (ModificationState m) = ''optimizing'')
                  \<and> n = Int64Value (TargetSize m))"
        by blast
      have "calls w' = calls w @ replicate (Suc j) (CallDescribeVolumesModifications \<lparr>ModsVolumeIds = [volumeID]\<rparr>)"
        using j(2) c1 by simp
      moreover have "Suc j \<le> Suc k" using j(1) by simp
      ultimately show ?thesis using j(3) by blast
    qed
  qed
qed

lemma backoff_size_total:
  "\<exists>e n w'. ExponentialBackoff k (waitForVolumeSize_condition c volumeID) (n0, w) = Some (e, (n, w'))"
proof (induction k arbitrary: n0 w)
  case 0
  then show ?case by simp
next
  case (Suc k)
  obtain r w1 where g: "getLatestVolumeModification c volumeID w = (r, w1)"
    by (cases "getLatestVolumeModification c volumeID w")
  show ?case
    using g Suc.IH [of n0 w1]
    by (cases r) (auto simp: size_condition)
qed

lemma ResizeDisk_nil_record:
  assumes "getVolume fuel c \<lparr>VolFilters = [], VolumeIds = [volumeID], VolNextToken = None\<rparr> w
             = Some (Inr volume, request', w1)"
      and "\<not> RoundUpGiB u newSizeBytes \<le>s Int64Value (Size volume)"
      and "invoke (ModifyVolumeWithContext (ec2 c)
                     \<lparr>ModVolumeId = volumeID, ModSize = RoundUpGiB u newSizeBytes\<rparr>)
             (CallModifyVolume \<lparr>ModVolumeId = volumeID, ModSize = RoundUpGiB u newSizeBytes\<rparr>) w1
             = (Inr response, w2)"
      and "VolumeModification response = None"
  shows "ResizeDisk u fuel c volumeID newSizeBytes w = Some (Panic NilPointerDereference, w2)"
  using ResizeDisk_modify_ok [OF assms(1) assms(2) assms(3)] assms(4)
  by (simp add: ResizeDisk_finish_def)

lemma busy_getVolume:
  "getVolume 1 (cloud_of ec2_resize_busy)
     \<lparr>VolFilters = [], VolumeIds = [''vol-1''], VolNextToken = None\<rparr> world0 =
   Some (Inr (volume_of ''vol-1'' 1),
         \<lparr>VolFilters = [], VolumeIds = [''vol-1''], VolNextToken = None\<rparr>,
         \<lparr>provider = 1, calls = [CallDescribeVolumes
            \<lparr>VolFilters = [], VolumeIds = [''vol-1''], VolNextToken = None\<rparr>]\<rparr>)"
  by (simp add: getVolume_def cloud_of_def ec2_resize_busy_def ec2_unscripted_def world0_def
        invoke_def StringValue_def)

lemma two_GiB: "RoundUpGiB util_GiB (2 * GiB) = 2"
  by (simp add: util_GiB_def GiB_def signed_divide_int_def)

lemma busy_grow:
  "\<not> RoundUpGiB util_GiB (2 * GiB) \<le>s Int64Value (Size (volume_of ''vol-1'' 1))"
  by (simp add: two_GiB volume_of_def Int64Value_def word_sle_eq)

text \<open>
  Claim C2. When the volume's current size in GiB is at least \<^verbatim>\<open>RoundUpGiB(newSizeBytes)\<close>
  (as \<^verbatim>\<open>int64\<close> values), \<^verbatim>\<open>ResizeDisk\<close> returns the current size, and the only calls it
  has issued are the describe calls of the lookup: no modify call.
\<close>

theorem ResizeDisk_no_shrink:
  assumes "getVolume fuel c \<lparr>VolFilters = [], VolumeIds = [volumeID], VolNextToken = None\<rparr> w
             = Some (Inr volume, request', w1)"
      and "RoundUpGiB u newSizeBytes \<le>s Int64Value (Size volume)"
  shows "ResizeDisk u fuel c volumeID newSizeBytes w = Some (Ok (Int64Value (Size volume)), w1) \<and>
         (\<exists>reqs. calls w1 = calls w @ map CallDescribeVolumes reqs)"
  using assms getVolume_calls [OF assms(1)] by (simp add: ResizeDisk_def)

theorem ResizeDisk_no_shrink_witness:
  "ResizeDisk util_GiB 1 (cloud_of ec2_resize_busy) ''vol-1'' GiB world0 =
     Some (Ok 1, \<lparr>provider = 1, calls = [CallDescribeVolumes
            \<lparr>VolFilters = [], VolumeIds = [''vol-1''], VolNextToken = None\<rparr>]\<rparr>)"
proof -
  have "RoundUpGiB util_GiB GiB \<le>s Int64Value (Size (volume_of ''vol-1'' 1))"
    by (simp add: util_GiB_def GiB_def signed_divide_int_def volume_of_def Int64Value_def)
  from ResizeDisk_no_shrink [OF busy_getVolume this] show ?thesis
    by (simp add: volume_of_def Int64Value_def)
qed

lemma getLatest_answer:
  assumes "DescribeVolumesModificationsWithContext (ec2 c) \<lparr>ModsVolumeIds = [volumeID]\<rparr>
             (provider w) = (Inr out, s1)"
      and "VolumesModifications out \<noteq> []"
  shows "getLatestVolumeModification c volumeID w =
           (Inr (last (VolumesModifications out)),
            \<lparr>provider = s1,
             calls = calls w @ [CallDescribeVolumesModifications \<lparr>ModsVolumeIds = [volumeID]\<rparr>]\<rparr>)"
  using assms by (simp add: getLatestVolumeModification_def invoke_def last_conv_nth)

lemma size_condition_pending:
  assumes "DescribeVolumesModificationsWithContext (ec2 c) \<lparr>ModsVolumeIds = [volumeID]\<rparr>
             (provider w) = (Inr out, s1)"
      and "answer_pending out"
  shows "waitForVolumeSize_condition c volumeID (n0, w) =
           Some ((False, None), (n0,
             \<lparr>provider = s1,
              calls = calls w @ [CallDescribeVolumesModifications \<lparr>ModsVolumeIds = [volumeID]\<rparr>]\<rparr>))"
  using assms(2) getLatest_answer [OF assms(1)]
  by (simp add: size_condition answer_pending_def)

lemma size_condition_done:
  assumes "DescribeVolumesModificationsWithContext (ec2 c) \<lparr>ModsVolumeIds = [volumeID]\<rparr>
             (provider w) = (Inr out, s1)"
      and "answer_done out"
  shows "waitForVolumeSize_condition c volumeID (n0, w) =
           Some ((True, None), (answer_target out,
             \<lparr>provider = s1,
              calls = calls w @ [CallDescribeVolumesModifications \<lparr>ModsVolumeIds = [volumeID]\<rparr>]\<rparr>))"
  using assms(2) getLatest_answer [OF assms(1)]
  by (auto simp: size_condition answer_done_def answer_target_def)

lemma poll_done:
  "provider_answers (ec2 c) volumeID (provider w) (pending @ [final]) s3 \<Longrightarrow>
   \<forall>out \<in> set pending. answer_pending out \<Longrightarrow> answer_done final \<Longrightarrow>
   length pending < k \<Longrightarrow>
     ExponentialBackoff k (waitForVolumeSize_condition c volumeID) (n0, w) =
       Some (None, (answer_target final,
         \<lparr>provider = s3,
          calls = calls w @ replicate (Suc (length pending))
                    (CallDescribeVolumesModifications \<lparr>ModsVolumeIds = [volumeID]\<rparr>)\<rparr>))"
proof (induction pending arbitrary: k n0 w)
  case Nil
  then obtain k' where k: "k = Suc k'" by (cases k) auto
  obtain a s1 where d: "DescribeVolumesModificationsWithContext (ec2 c)
                          \<lparr>ModsVolumeIds = [volumeID]\<rparr> (provider w) = (a, s1)"
    by (cases "DescribeVolumesModificationsWithContext (ec2 c)
                 \<lparr>ModsVolumeIds = [volumeID]\<rparr> (provider w)")
  from Nil.prems(1) d have a: "a = Inr final" "s3 = s1" by (cases a; simp)+
  from size_condition_done [OF d [unfolded a(1)] Nil.prems(3), of n0] show ?case
    using k a(2) by simp
next
  case (Cons out rest)
  then obtain k' where k: "k = Suc k'" "length rest < k'" by (cases k) auto
  obtain a s1 where d: "DescribeVolumesModificationsWithContext (ec2 c)
                          \<lparr>ModsVolumeIds = [volumeID]\<rparr> (provider w) = (a, s1)"
    by (cases "DescribeVolumesModificationsWithContext (ec2 c)
                 \<lparr>ModsVolumeIds = [volumeID]\<rparr> (provider w)")
  from Cons.prems(1) d have a: "a = Inr out" by (cases a) auto
  let ?w1 = "\<lparr>provider = s1,
              calls = calls w @ [CallDescribeVolumesModifications \<lparr>ModsVolumeIds = [volumeID]\<rparr>]\<rparr>"
  have more: "provider_answers (ec2 c) volumeID (provider ?w1) (rest @ [final]) s3"
    using Cons.prems(1) d a by simp
  have pend: "answer_pending out" "\<forall>x \<in> set rest. answer_pending x"
    using Cons.prems(2) by simp_all
  have step: "waitForVolumeSize_condition c volumeID (n0, w) = Some ((False, None), (n0, ?w1))"
    by (rule size_condition_pending [OF d [unfolded a] pend(1)])
  from Cons.IH [OF more pend(2) Cons.prems(3) k(2), of n0] show ?case
    using step k(1) by (simp add: replicate_app_Cons_same)
qed

lemma poll_timeout:
  "provider_answers (ec2 c) volumeID (provider w) pending s3 \<Longrightarrow>
   \<forall>out \<in> set pending. answer_pending out \<Longrightarrow> length pending = k \<Longrightarrow>
     ExponentialBackoff k (waitForVolumeSize_condition c volumeID) (n0, w) =
       Some (Some ErrWaitTimeout, (n0,
         \<lparr>provider = s3,
          calls = calls w @ replicate k
                    (CallDescribeVolumesModifications \<lparr>ModsVolumeIds = [volumeID]\<rparr>)\<rparr>))"
proof (induction pending arbitrary: k n0 w)
  case Nil
  then show ?case by simp
next
  case (Cons out rest)
  then obtain k' where k: "k = Suc k'" "length rest = k'" by (cases k) auto
  obtain a s1 where d: "DescribeVolumesModificationsWithContext (ec2 c)
                          \<lparr>ModsVolumeIds = [volumeID]\<rparr> (provider w) = (a, s1)"
    by (cases "DescribeVolumesModificationsWithContext (ec2 c)
                 \<lparr>ModsVolumeIds = [volumeID]\<rparr> (provider w)")
  from Cons.prems(1) d have a: "a = Inr out" by (cases a) auto
  let ?w1 = "\<lparr>provider = s1,
              calls = calls w @ [CallDescribeVolumesModifications \<lparr>ModsVolumeIds = [volumeID]\<rparr>]\<rparr>"
  have more: "provider_answers (ec2 c) volumeID (provider ?w1) rest s3"
    using Cons.prems(1) d a by simp
  have pend: "answer_pending out" "\<forall>x \<in> set rest. answer_pending x"
    using Cons.prems(2) by simp_all
  have step: "waitForVolumeSize_condition c volumeID (n0, w) = Some ((False, None), (n0, ?w1))"
    by (rule size_condition_pending [OF d [unfolded a] pend(1)])
  from Cons.IH [OF more pend(2) k(2), of n0] show ?case
    using step k(1) by (simp add: replicate_app_Cons_same)
qed

text \<open>
  Claim C3. The provider lists exactly one volume for the lookup, smaller than the size
  asked for, rejects the modify call with the code \<^verbatim>\<open>IncorrectModificationState\<close>, and
  answers the fetch of the modifications with \<open>first\<close>. Then \<^verbatim>\<open>ResizeDisk\<close> does not
  return that rejection: it takes the latest record of \<open>first\<close> and goes on from it with
  the code that handles the record of a modify call that succeeded (\<open>ResizeDisk_finish\<close>).
  If that record is terminal, its target size is returned at once, after this one fetch.
  Otherwise the modifications are fetched again, up to 20 times: at the first answer whose
  latest record is terminal the target size of that record is returned and no further call
  is issued; when all 20 answers are pending the result is the timeout of the wait.
\<close>

theorem ResizeDisk_recovers_modification:
  assumes lookup: "provider_lists (ec2 c)
                     \<lparr>VolFilters = [], VolumeIds = [volumeID], VolNextToken = None\<rparr>
                     (provider w) pages s1"
      and fuel: "length pages \<le> fuel"
      and one: "concat (map Volumes pages) = [volume]"
      and grow: "\<not> RoundUpGiB u newSizeBytes \<le>s Int64Value (Size volume)"
      and busy: "ModifyVolumeWithContext (ec2 c)
                   \<lparr>ModVolumeId = volumeID, ModSize = RoundUpGiB u newSizeBytes\<rparr> s1
                 = (Inl (AwsError ''IncorrectModificationState'' msg), s2)"
      and fetch: "DescribeVolumesModificationsWithContext (ec2 c)
                    \<lparr>ModsVolumeIds = [volumeID]\<rparr> s2 = (Inr first, sf)"
      and some: "VolumesModifications first \<noteq> []"
      and wq: "wq = \<lparr>provider = sf,
                     calls = calls w @
                       map CallDescribeVolumes
                         (page_requests
                            \<lparr>VolFilters = [], VolumeIds = [volumeID], VolNextToken = None\<rparr>
                            pages) @
                       [CallModifyVolume
                          \<lparr>ModVolumeId = volumeID, ModSize = RoundUpGiB u newSizeBytes\<rparr>,
                        CallDescribeVolumesModifications \<lparr>ModsVolumeIds = [volumeID]\<rparr>]\<rparr>"
  shows "ResizeDisk u fuel c volumeID newSizeBytes w =
           ResizeDisk_finish c volumeID (Some (last (VolumesModifications first))) wq \<and>
         (answer_done first \<longrightarrow>
            ResizeDisk u fuel c volumeID newSizeBytes w = Some (Ok (answer_target first), wq)) \<and>
         (answer_pending first \<and>
          provider_answers (ec2 c) volumeID sf (pending @ [final]) s3 \<and>
          (\<forall>out \<in> set pending. answer_pending out) \<and> answer_done final \<and>
          length pending < 20 \<longrightarrow>
            ResizeDisk u fuel c volumeID newSizeBytes w =
              Some (Ok (answer_target final),
                    \<lparr>provider = s3,
                     calls = calls wq @ replicate (Suc (length pending))
                       (CallDescribeVolumesModifications \<lparr>ModsVolumeIds = [volumeID]\<rparr>)\<rparr>)) \<and>
         (answer_pending first \<and>
          provider_answers (ec2 c) volumeID sf pending s3 \<and>
          (\<forall>out \<in> set pending. answer_pending out) \<and> length pending = 20 \<longrightarrow>
            ResizeDisk u fuel c volumeID newSizeBytes w =
              Some (Error ErrWaitTimeout,
                    \<lparr>provider = s3,
                     calls = calls wq @ replicate 20
                       (CallDescribeVolumesModifications \<lparr>ModsVolumeIds = [volumeID]\<rparr>)\<rparr>))"
proof -
  let ?req = "\<lparr>VolFilters = [], VolumeIds = [volumeID], VolNextToken = None\<rparr>"
  let ?mreq = "\<lparr>ModVolumeId = volumeID, ModSize = RoundUpGiB u newSizeBytes\<rparr>"
  let ?w1 = "\<lparr>provider = s1,
              calls = calls w @ map CallDescribeVolumes (page_requests ?req pages)\<rparr>"
  let ?w2 = "\<lparr>provider = s2, calls = calls ?w1 @ [CallModifyVolume ?mreq]\<rparr>"
  have gv: "getVolume fuel c ?req w = Some (Inr volume, last (page_requests ?req pages), ?w1)"
    using getVolume_lists [OF lookup fuel] one by simp
  have md: "invoke (ModifyVolumeWithContext (ec2 c) ?mreq) (CallModifyVolume ?mreq) ?w1
              = (Inl (AwsError ''IncorrectModificationState'' msg), ?w2)"
    using busy by (simp add: invoke_def)
  have "getLatestVolumeModification c volumeID ?w2 =
          (Inr (last (VolumesModifications first)),
           \<lparr>provider = sf,
            calls = calls ?w2 @ [CallDescribeVolumesModifications \<lparr>ModsVolumeIds = [volumeID]\<rparr>]\<rparr>)"
    by (rule getLatest_answer) (simp_all add: fetch some)
  then have lt: "getLatestVolumeModification c volumeID ?w2 =
                   (Inr (last (VolumesModifications first)), wq)"
    by (simp add: wq)
  have eq: "ResizeDisk u fuel c volumeID newSizeBytes w =
              ResizeDisk_finish c volumeID (Some (last (VolumesModifications first))) wq"
    by (rule ResizeDisk_modify_busy [OF gv grow md lt])
  have dn1: "ResizeDisk u fuel c volumeID newSizeBytes w = Some (Ok (answer_target first), wq)"
    if "answer_done first"
    using that eq
    by (auto simp: ResizeDisk_finish_def answer_done_def answer_target_def
          VolumeModificationStateCompleted_def VolumeModificationStateOptimizing_def)
  have wait: "ResizeDisk u fuel c volumeID newSizeBytes w =
                (case waitForVolumeSize c volumeID wq of
                   None \<Rightarrow> None
                 | Some (Inl err, w') \<Rightarrow> Some (Error err, w')
                 | Some (Inr n, w') \<Rightarrow> Some (Ok n, w'))"
    if "answer_pending first"
    using that eq
    by (simp add: ResizeDisk_finish_def answer_pending_def
          VolumeModificationStateCompleted_def VolumeModificationStateOptimizing_def)
  have sf: "provider wq = sf" by (simp add: wq)
  have polled: "ResizeDisk u fuel c volumeID newSizeBytes w =
              Some (Ok (answer_target final),
                    \<lparr>provider = s3,
                     calls = calls wq @ replicate (Suc (length pending))
                       (CallDescribeVolumesModifications \<lparr>ModsVolumeIds = [volumeID]\<rparr>)\<rparr>)"
    if h: "answer_pending first \<and>
          provider_answers (ec2 c) volumeID sf (pending @ [final]) s3 \<and>
          (\<forall>out \<in> set pending. answer_pending out) \<and> answer_done final \<and>
          length pending < 20"
  proof -
    from h have pa: "provider_answers (ec2 c) volumeID (provider wq) (pending @ [final]) s3"
      and pe: "\<forall>out \<in> set pending. answer_pending out" and dn: "answer_done final"
      and ln: "length pending < 20" and pf: "answer_pending first"
      by (simp_all add: sf)
    from poll_done [OF pa pe dn ln, of 0] show ?thesis
      using wait [OF pf] by (simp add: waitForVolumeSize_def)
  qed
  have timeout: "ResizeDisk u fuel c volumeID newSizeBytes w =
              Some (Error ErrWaitTimeout,
                    \<lparr>provider = s3,
                     calls = calls wq @ replicate 20
                       (CallDescribeVolumesModifications \<lparr>ModsVolumeIds = [volumeID]\<rparr>)\<rparr>)"
    if h: "answer_pending first \<and>
          provider_answers (ec2 c) volumeID sf pending s3 \<and>
          (\<forall>out \<in> set pending. answer_pending out) \<and> length pending = 20"
  proof -
    from h have pa: "provider_answers (ec2 c) volumeID (provider wq) pending s3"
      and pe: "\<forall>out \<in> set pending. answer_pending out"
      and ln: "length pending = 20" and pf: "answer_pending first"
      by (simp_all add: sf)
    from poll_timeout [OF pa pe ln, of 0] show ?thesis
      using wait [OF pf] by (simp add: waitForVolumeSize_def)
  qed
  show ?thesis
    using eq dn1 polled timeout by blast
qed

theorem ResizeDisk_recovers_modification_witness:
  "ResizeDisk util_GiB 1 (cloud_of ec2_resize_busy) ''vol-1'' (2 * GiB) world0 =
     Some (Ok 2,
           \<lparr>provider = 5,
            calls =
              [CallDescribeVolumes
                 \<lparr>VolFilters = [], VolumeIds = [''vol-1''], VolNextToken = None\<rparr>,
               CallModifyVolume \<lparr>ModVolumeId = ''vol-1'', ModSize = 2\<rparr>,
               CallDescribeVolumesModifications \<lparr>ModsVolumeIds = [''vol-1'']\<rparr>,
               CallDescribeVolumesModifications \<lparr>ModsVolumeIds = [''vol-1'']\<rparr>,
               CallDescribeVolumesModifications \<lparr>ModsVolumeIds = [''vol-1'']\<rparr>]\<rparr>)"
proof -
  have fuel: "length [\<lparr>Volumes = [volume_of ''vol-1'' 1], VolsNextToken = None\<rparr>] \<le> 1"
    by simp
  have one: "concat (map Volumes [\<lparr>Volumes = [volume_of ''vol-1'' 1], VolsNextToken = None\<rparr>])
               = [volume_of ''vol-1'' 1]"
    by simp
  have busy: "ModifyVolumeWithContext (ec2 (cloud_of ec2_resize_busy))
                \<lparr>ModVolumeId = ''vol-1'', ModSize = RoundUpGiB util_GiB (2 * GiB)\<rparr> 1
              = (Inl (AwsError ''IncorrectModificationState'' ''modification in progress''), 2)"
    by (simp add: cloud_of_def ec2_resize_busy_def ec2_unscripted_def)
  have fetch: "DescribeVolumesModificationsWithContext (ec2 (cloud_of ec2_resize_busy))
                 \<lparr>ModsVolumeIds = [''vol-1'']\<rparr> 2 = (Inr (busy_answer ''modifying''), 3)"
    by (simp add: cloud_of_def ec2_resize_busy_def ec2_unscripted_def)
  have some: "VolumesModifications (busy_answer ''modifying'') \<noteq> []"
    by (simp add: busy_answer_def)
  have polls: "answer_pending (busy_answer ''modifying'') \<and>
      provider_answers (ec2 (cloud_of ec2_resize_busy)) ''vol-1'' 3
        ([busy_answer ''modifying''] @ [busy_answer ''optimizing'']) 5 \<and>
      (\<forall>out \<in> set [busy_answer ''modifying'']. answer_pending out) \<and>
      answer_done (busy_answer ''optimizing'') \<and>
      length [busy_answer ''modifying''] < 20"
    by (simp add: cloud_of_def ec2_resize_busy_def ec2_unscripted_def busy_answer_def
          answer_pending_def answer_done_def StringValue_def)
  have "ResizeDisk util_GiB 1 (cloud_of ec2_resize_busy) ''vol-1'' (2 * GiB) world0 =
     Some (Ok (answer_target (busy_answer ''optimizing'')),
           \<lparr>provider = 5,
            calls = calls
              \<lparr>provider = (3::nat),
               calls = calls world0 @
                 map CallDescribeVolumes
                   (page_requests
                      \<lparr>VolFilters = [], VolumeIds = [''vol-1''], VolNextToken = None\<rparr>
                      [\<lparr>Volumes = [volume_of ''vol-1'' 1], VolsNextToken = None\<rparr>]) @
                 [CallModifyVolume
                    \<lparr>ModVolumeId = ''vol-1'', ModSize = RoundUpGiB util_GiB (2 * GiB)\<rparr>,
                  CallDescribeVolumesModifications \<lparr>ModsVolumeIds = [''vol-1'']\<rparr>]\<rparr> @
              replicate (Suc (length [busy_answer ''modifying'']))
                (CallDescribeVolumesModifications \<lparr>ModsVolumeIds = [''vol-1'']\<rparr>)\<rparr>)"
    by (rule ResizeDisk_recovers_modification
          [OF one_volume_lists fuel one busy_grow busy fetch some refl,
           THEN conjunct2, THEN conjunct2, THEN conjunct1, rule_format, OF polls])
  then show ?thesis
    by (simp add: answer_target_def busy_answer_def Int64Value_def world0_def two_GiB)
qed

lemma no_record_getVolume:
  "getVolume 1 (cloud_of ec2_modify_no_record)
     \<lparr>VolFilters = [], VolumeIds = [''vol-1''], VolNextToken = None\<rparr> world0 =
   Some (Inr (volume_of ''vol-1'' 1),
         \<lparr>VolFilters = [], VolumeIds = [''vol-1''], VolNextToken = None\<rparr>,
         \<lparr>provider = 1, calls = [CallDescribeVolumes
            \<lparr>VolFilters = [], VolumeIds = [''vol-1''], VolNextToken = None\<rparr>]\<rparr>)"
  by (simp add: getVolume_def cloud_of_def ec2_modify_no_record_def ec2_unscripted_def world0_def
        invoke_def StringValue_def)

lemma no_record_modify:
  "invoke (ModifyVolumeWithContext (ec2 (cloud_of ec2_modify_no_record))
             \<lparr>ModVolumeId = ''vol-1'', ModSize = RoundUpGiB util_GiB (2 * GiB)\<rparr>)
     (CallModifyVolume \<lparr>ModVolumeId = ''vol-1'', ModSize = RoundUpGiB util_GiB (2 * GiB)\<rparr>)
     \<lparr>provider = 1, calls = [CallDescribeVolumes
            \<lparr>VolFilters = [], VolumeIds = [''vol-1''], VolNextToken = None\<rparr>]\<rparr>
   = (Inr \<lparr>VolumeModification = None\<rparr>,
      \<lparr>provider = 2, calls = [CallDescribeVolumes
            \<lparr>VolFilters = [], VolumeIds = [''vol-1''], VolNextToken = None\<rparr>,
          CallModifyVolume \<lparr>ModVolumeId = ''vol-1'', ModSize = 2\<rparr>]\<rparr>)"
  by (simp add: two_GiB cloud_of_def ec2_modify_no_record_def ec2_unscripted_def invoke_def)

text \<open>
  Claim C7 says that \<^verbatim>\<open>ResizeDisk\<close> returns an error when the modify call succeeds with
  an output that has no modification record. The code reads the state through the nil
  record and panics: here on a volume of 1 GiB that is resized to 2 GiB.
\<close>

theorem ResizeDisk_panics_without_record:
  "ResizeDisk util_GiB 1 (cloud_of ec2_modify_no_record) ''vol-1'' (2 * GiB) world0 =
     Some (Panic NilPointerDereference,
           \<lparr>provider = 2, calls = [CallDescribeVolumes
               \<lparr>VolFilters = [], VolumeIds = [''vol-1''], VolNextToken = None\<rparr>,
             CallModifyVolume \<lparr>ModVolumeId = ''vol-1'', ModSize = 2\<rparr>]\<rparr>)"
  by (rule ResizeDisk_nil_record [OF no_record_getVolume busy_grow no_record_modify]) simp

subsection \<open>Attach\<close>

lemma AttachDisk_after_device:
  assumes "getInstance fuel c nodeID w = Some (Inr instance, w1)"
      and "NewDevice (dm c) instance volumeID = Inr device"
  shows "AttachDisk fuel c volumeID nodeID w =
           (case AttachDisk_attach c volumeID nodeID device w1 of
              (Some early, w2) \<Rightarrow> Some ((early, Some (Release False device)), w2)
            | (None, w2) \<Rightarrow>
                (case WaitForAttachmentState fuel c volumeID ''attached'' w2 of
                   None \<Rightarrow> None
                 | Some (Some err, w3) \<Rightarrow>
                     Some ((Error err, Some (Release False (Taint device))), w3)
                 | Some (None, w3) \<Rightarrow>
                     Some ((Ok (Path device), Some (Release False device)), w3)))"
  using assms by (simp add: AttachDisk_def)

lemma AttachDisk_attach_error:
  assumes "\<not> IsAlreadyAssigned device"
      and "IsSDKClient (ec2 c)"
      and "invoke (SendAttachVolume (ec2 c) \<lparr>InstanceId = nodeID, AttVolumeId = volumeID\<rparr>)
             (CallAttachVolume \<lparr>InstanceId = nodeID, AttVolumeId = volumeID\<rparr>) w1 = (Inl err, w2)"
  shows "AttachDisk_attach c volumeID nodeID device w1 =
           (Some (Error (if isAWSError err ''VolumeInUse'' then ErrAlreadyExists
                         else Errorf ''could not attach volume %q to node %q: %v''
                                [S volumeID, S nodeID] (Some err))), w2)"
  using assms by (simp add: AttachDisk_attach_def)

lemma AttachDisk_wait_failure:
  assumes "getInstance fuel c nodeID w = Some (Inr instance, w1)"
      and "NewDevice (dm c) instance volumeID = Inr device"
      and "AttachDisk_attach c volumeID nodeID device w1 = (None, w2)"
      and "WaitForAttachmentState fuel c volumeID ''attached'' w2 = Some (Some err, w3)"
  shows "AttachDisk fuel c volumeID nodeID w =
           Some ((Error err, Some (Release False (Taint device))), w3) \<and>
         isTainted (Release False (Taint device))"
  using assms by (simp add: AttachDisk_after_device Release_def Taint_def)

text \<open>
  Claim C1, as the code has it. When the device is not already assigned and the attach call
  sent through the SDK client fails, \<^verbatim>\<open>AttachDisk\<close> returns \<open>ErrAlreadyExists\<close> for the
  code \<^verbatim>\<open>VolumeInUse\<close> and otherwise the error wrapped by \<^verbatim>\<open>fmt.Errorf\<close>. In both cases
  the device is left with the taint flag it was allocated with: the only thing done to it
  is the deferred \<^verbatim>\<open>Release(false)\<close>.
\<close>

theorem AttachDisk_attach_failure:
  assumes inst: "getInstance fuel c nodeID w = Some (Inr instance, w1)"
      and dev: "NewDevice (dm c) instance volumeID = Inr device"
      and fresh: "\<not> IsAlreadyAssigned device"
      and sdk: "IsSDKClient (ec2 c)"
      and fails: "invoke (SendAttachVolume (ec2 c) \<lparr>InstanceId = nodeID, AttVolumeId = volumeID\<rparr>)
             (CallAttachVolume \<lparr>InstanceId = nodeID, AttVolumeId = volumeID\<rparr>) w1 = (Inl err, w2)"
  shows "AttachDisk fuel c volumeID nodeID w =
           Some ((Error (if isAWSError err ''VolumeInUse'' then ErrAlreadyExists
                         else Errorf ''could not attach volume %q to node %q: %v''
                                [S volumeID, S nodeID] (Some err)),
                  Some (Release False device)), w2) \<and>
         isTainted (Release False device) = isTainted device \<and>
         releases (Release False device) = releases device @ [False]"
  using AttachDisk_attach_error [OF fresh sdk fails]
  by (simp add: AttachDisk_after_device [OF inst dev] Release_def)

lemma one_instance:
  assumes "DescribeInstancesWithContext (ec2 c) = describe_one_instance"
  shows "getInstance 1 c ''i-1'' \<lparr>provider = 0, calls = []\<rparr> =
           Some (Inr \<lparr>InstInstanceId = Some ''i-1''\<rparr>,
                 \<lparr>provider = 1, calls = [CallDescribeInstances
                    \<lparr>InstanceIds = [''i-1''], InstNextToken = None\<rparr>]\<rparr>)"
  using assms by (simp add: getInstance_def invoke_def describe_one_instance_def StringValue_def)

lemma in_use_instance:
  "getInstance 1 (cloud_of ec2_volume_in_use) ''i-1'' world0 =
     Some (Inr \<lparr>InstInstanceId = Some ''i-1''\<rparr>,
           \<lparr>provider = 1, calls = [CallDescribeInstances
              \<lparr>InstanceIds = [''i-1''], InstNextToken = None\<rparr>]\<rparr>)"
  unfolding world0_def
  by (rule one_instance) (simp add: cloud_of_def ec2_volume_in_use_def ec2_unscripted_def)

lemma fresh_device:
  "NewDevice (dm (cloud_of e)) instance volumeID =
     Inr \<lparr>Path = ''/dev/xvdba'', IsAlreadyAssigned = False, isTainted = False, releases = []\<rparr>"
  by (simp add: cloud_of_def dm_fresh_def)

lemma in_use_attach:
  "invoke (SendAttachVolume (ec2 (cloud_of ec2_volume_in_use))
             \<lparr>InstanceId = ''i-1'', AttVolumeId = ''vol-1''\<rparr>)
     (CallAttachVolume \<lparr>InstanceId = ''i-1'', AttVolumeId = ''vol-1''\<rparr>)
     \<lparr>provider = 1, calls = [CallDescribeInstances
              \<lparr>InstanceIds = [''i-1''], InstNextToken = None\<rparr>]\<rparr>
   = (Inl (AwsError ''VolumeInUse'' ''the volume is attached''),
      \<lparr>provider = 2, calls = [CallDescribeInstances
              \<lparr>InstanceIds = [''i-1''], InstNextToken = None\<rparr>,
          CallAttachVolume \<lparr>InstanceId = ''i-1'', AttVolumeId = ''vol-1''\<rparr>]\<rparr>)"
  by (simp add: cloud_of_def ec2_volume_in_use_def ec2_unscripted_def invoke_def)

theorem AttachDisk_attach_failure_witness:
  "AttachDisk 1 (cloud_of ec2_volume_in_use) ''vol-1'' ''i-1'' world0 =
     Some ((Error ErrAlreadyExists,
            Some \<lparr>Path = ''/dev/xvdba'', IsAlreadyAssigned = False, isTainted = False,
                  releases = [False]\<rparr>),
           \<lparr>provider = 2, calls = [CallDescribeInstances
              \<lparr>InstanceIds = [''i-1''], InstNextToken = None\<rparr>,
             CallAttachVolume \<lparr>InstanceId = ''i-1'', AttVolumeId = ''vol-1''\<rparr>]\<rparr>)"
proof -
  have sdk: "IsSDKClient (ec2 (cloud_of ec2_volume_in_use))"
    by (simp add: cloud_of_def ec2_volume_in_use_def ec2_unscripted_def)
  have fresh: "\<not> IsAlreadyAssigned
      \<lparr>Path = ''/dev/xvdba'', IsAlreadyAssigned = False, isTainted = False, releases = []\<rparr>"
    by simp
  from AttachDisk_attach_failure [OF in_use_instance fresh_device fresh sdk in_use_attach]
  show ?thesis by (simp add: Release_def)
qed

text \<open>
  Claim C1 as stated fails: the attach call is rejected with \<^verbatim>\<open>InvalidParameterValue\<close>, the
  wrapped error is returned, and the device is not tainted.
\<close>

theorem AttachDisk_attach_failure_counterexample:
  "AttachDisk 1 (cloud_of ec2_attach_fails) ''vol-1'' ''i-1'' world0 =
     Some ((Error (Errorf ''could not attach volume %q to node %q: %v'' [S ''vol-1'', S ''i-1'']
                     (Some (AwsError ''InvalidParameterValue''
                              ''the instance is in another zone''))),
            Some \<lparr>Path = ''/dev/xvdba'', IsAlreadyAssigned = False, isTainted = False,
                  releases = [False]\<rparr>),
           \<lparr>provider = 2, calls = [CallDescribeInstances
              \<lparr>InstanceIds = [''i-1''], InstNextToken = None\<rparr>,
             CallAttachVolume \<lparr>InstanceId = ''i-1'', AttVolumeId = ''vol-1''\<rparr>]\<rparr>)"
proof -
  have inst: "getInstance 1 (cloud_of ec2_attach_fails) ''i-1'' world0 =
     Some (Inr \<lparr>InstInstanceId = Some ''i-1''\<rparr>,
           \<lparr>provider = 1, calls = [CallDescribeInstances
              \<lparr>InstanceIds = [''i-1''], InstNextToken = None\<rparr>]\<rparr>)"
    unfolding world0_def
    by (rule one_instance) (simp add: cloud_of_def ec2_attach_fails_def ec2_unscripted_def)
  have att: "AttachDisk_attach (cloud_of ec2_attach_fails) ''vol-1'' ''i-1''
      \<lparr>Path = ''/dev/xvdba'', IsAlreadyAssigned = False, isTainted = False, releases = []\<rparr>
      \<lparr>provider = 1, calls = [CallDescribeInstances
              \<lparr>InstanceIds = [''i-1''], InstNextToken = None\<rparr>]\<rparr> =
     (Some (Error (Errorf ''could not attach volume %q to node %q: %v'' [S ''vol-1'', S ''i-1'']
                     (Some (AwsError ''InvalidParameterValue''
                              ''the instance is in another zone'')))),
      \<lparr>provider = 2, calls = [CallDescribeInstances
              \<lparr>InstanceIds = [''i-1''], InstNextToken = None\<rparr>,
             CallAttachVolume \<lparr>InstanceId = ''i-1'', AttVolumeId = ''vol-1''\<rparr>]\<rparr>)"
    by (simp add: AttachDisk_attach_def cloud_of_def ec2_attach_fails_def ec2_unscripted_def
          invoke_def)
  have "AttachDisk 1 (cloud_of ec2_attach_fails) ''vol-1'' ''i-1'' world0 =
          (case AttachDisk_attach (cloud_of ec2_attach_fails) ''vol-1'' ''i-1''
                  \<lparr>Path = ''/dev/xvdba'', IsAlreadyAssigned = False, isTainted = False,
                    releases = []\<rparr>
                  \<lparr>provider = 1, calls = [CallDescribeInstances
                     \<lparr>InstanceIds = [''i-1''], InstNextToken = None\<rparr>]\<rparr> of
             (Some early, w2) \<Rightarrow>
               Some ((early, Some (Release False
                  \<lparr>Path = ''/dev/xvdba'', IsAlreadyAssigned = False, isTainted = False,
                    releases = []\<rparr>)), w2)
           | (None, w2) \<Rightarrow>
               (case WaitForAttachmentState 1 (cloud_of ec2_attach_fails) ''vol-1''
                       ''attached'' w2 of
                  None \<Rightarrow> None
                | Some (Some err, w3) \<Rightarrow>
                    Some ((Error err, Some (Release False (Taint
                      \<lparr>Path = ''/dev/xvdba'', IsAlreadyAssigned = False, isTainted = False,
                        releases = []\<rparr>))), w3)
                | Some (None, w3) \<Rightarrow>
                    Some ((Ok (Path
                      \<lparr>Path = ''/dev/xvdba'', IsAlreadyAssigned = False, isTainted = False,
                        releases = []\<rparr>), Some (Release False
                      \<lparr>Path = ''/dev/xvdba'', IsAlreadyAssigned = False, isTainted = False,
                        releases = []\<rparr>)), w3)))"
    by (rule AttachDisk_after_device [OF inst fresh_device])
  then show ?thesis
    using att by (simp add: Release_def)
qed

text \<open>
  Claim C9. With a transport whose dynamic type is not the SDK client, once the instance is
  found and the device manager hands out a device that is not already assigned,
  \<^verbatim>\<open>AttachDisk\<close> panics at the type assertion: no error is returned, no attach call is
  issued, and only the deferred release runs. With the SDK client \<^verbatim>\<open>AttachDisk\<close> never
  ends in a panic.
\<close>

theorem AttachDisk_type_assertion:
  "(\<not> IsSDKClient (ec2 c) \<and> getInstance fuel c nodeID w = Some (Inr inst, wi) \<and>
    NewDevice (dm c) inst volumeID = Inr device \<and> \<not> IsAlreadyAssigned device \<longrightarrow>
      AttachDisk fuel c volumeID nodeID w =
        Some ((Panic TypeAssertionFailed, Some (Release False device)), wi)) \<and>
   (IsSDKClient (ec2 c) \<longrightarrow> AttachDisk fuel c volumeID nodeID w \<noteq> Some ((Panic p, d), w'))"
proof (intro conjI impI)
  assume a: "\<not> IsSDKClient (ec2 c) \<and> getInstance fuel c nodeID w = Some (Inr inst, wi) \<and>
    NewDevice (dm c) inst volumeID = Inr device \<and> \<not> IsAlreadyAssigned device"
  then have "AttachDisk_attach c volumeID nodeID device wi = (Some (Panic TypeAssertionFailed), wi)"
    by (simp add: AttachDisk_attach_def)
  then show "AttachDisk fuel c volumeID nodeID w =
        Some ((Panic TypeAssertionFailed, Some (Release False device)), wi)"
    using a by (simp add: AttachDisk_after_device)
next
  assume sdk: "IsSDKClient (ec2 c)"
  have att: "AttachDisk_attach c volumeID nodeID dv wa \<noteq> (Some (Panic p), wb)" for dv wa wb
    using sdk by (auto simp: AttachDisk_attach_def split: prod.splits sum.splits)
  show "AttachDisk fuel c volumeID nodeID w \<noteq> Some ((Panic p, d), w')"
    using att
    by (auto simp: AttachDisk_def split: option.splits prod.splits sum.splits)
qed

theorem AttachDisk_type_assertion_witness:
  "AttachDisk 1 (cloud_of ec2_mock) ''vol-1'' ''i-1'' world0 =
     Some ((Panic TypeAssertionFailed,
            Some \<lparr>Path = ''/dev/xvdba'', IsAlreadyAssigned = False, isTainted = False,
                  releases = [False]\<rparr>),
           \<lparr>provider = 1, calls = [CallDescribeInstances
              \<lparr>InstanceIds = [''i-1''], InstNextToken = None\<rparr>]\<rparr>) \<and>
   AttachDisk 1 (cloud_of ec2_volume_in_use) ''vol-1'' ''i-1'' world0
     \<noteq> Some ((Panic TypeAssertionFailed, None), world0)"
proof -
  have inst: "getInstance 1 (cloud_of ec2_mock) ''i-1'' world0 =
     Some (Inr \<lparr>InstInstanceId = Some ''i-1''\<rparr>,
           \<lparr>provider = 1, calls = [CallDescribeInstances
              \<lparr>InstanceIds = [''i-1''], InstNextToken = None\<rparr>]\<rparr>)"
    unfolding world0_def
    by (rule one_instance) (simp add: cloud_of_def ec2_mock_def ec2_unscripted_def)
  have mock: "\<not> IsSDKClient (ec2 (cloud_of ec2_mock))"
    by (simp add: cloud_of_def ec2_mock_def ec2_unscripted_def)
  have sdk: "IsSDKClient (ec2 (cloud_of ec2_volume_in_use))"
    by (simp add: cloud_of_def ec2_volume_in_use_def ec2_unscripted_def)
  show ?thesis
    using AttachDisk_type_assertion [where c = "cloud_of ec2_mock" and fuel = 1
            and nodeID = "''i-1''" and w = world0
            and inst = "\<lparr>InstInstanceId = Some ''i-1''\<rparr>"
            and wi = "\<lparr>provider = 1, calls = [CallDescribeInstances
               \<lparr>InstanceIds = [''i-1''], InstNextToken = None\<rparr>]\<rparr>"
            and volumeID = "''vol-1''"
            and device = "\<lparr>Path = ''/dev/xvdba'', IsAlreadyAssigned = False,
              isTainted = False, releases = []\<rparr>"]
          AttachDisk_type_assertion [where c = "cloud_of ec2_volume_in_use" and fuel = 1
            and nodeID = "''i-1''" and w = world0 and volumeID = "''vol-1''"
            and p = TypeAssertionFailed and d = None and w' = world0]
          inst mock sdk fresh_device [of ec2_mock]
    by (simp add: Release_def)
qed

subsection \<open>Create\<close>

lemma volume_condition:
  "waitForVolume_condition fuel c (request, w) =
     (case getVolume fuel c request w of
        None \<Rightarrow> None
      | Some (Inl err, request', w') \<Rightarrow> Some ((True, Some err), (request', w'))
      | Some (Inr vol, request', w') \<Rightarrow>
          (case State vol of
             Some s \<Rightarrow> Some ((s = ''available'', None), (request', w'))
           | None \<Rightarrow> Some ((False, None), (request', w'))))"
  by (simp add: waitForVolume_condition_def)

lemma volume_condition_calls:
  assumes "waitForVolume_condition fuel c (request, w) = Some (r, (request', w'))"
  shows "\<exists>reqs. calls w' = calls w @ map CallDescribeVolumes reqs"
proof -
  from assms obtain r0 where "getVolume fuel c request w = Some (r0, request', w')"
    by (auto simp: volume_condition split: option.splits sum.splits)
  then show ?thesis by (rule getVolume_calls)
qed

lemma Poll_volume_calls:
  "Poll n (waitForVolume_condition fuel c) (request, w) = Some (e, (request', w')) \<Longrightarrow>
     \<exists>reqs. calls w' = calls w @ map CallDescribeVolumes reqs"
proof (induction n arbitrary: request w)
  case 0
  then have "calls w' = calls w @ map CallDescribeVolumes []" by simp
  then show ?case by blast
next
  case (Suc n)
  from Suc.prems obtain dn err request1 w1 where
    cnd: "waitForVolume_condition fuel c (request, w) = Some ((dn, err), (request1, w1))"
    by (cases "waitForVolume_condition fuel c (request, w)") auto
  from volume_condition_calls [OF cnd] obtain reqs1 where
    c1: "calls w1 = calls w @ map CallDescribeVolumes reqs1" by blast
  show ?case
  proof (cases "err \<noteq> None \<or> dn")
    case True
    then have "w' = w1" using Suc.prems cnd by (auto split: if_splits)
    then show ?thesis using c1 by blast
  next
    case False
    then have "Poll n (waitForVolume_condition fuel c) (request1, w1) = Some (e, (request', w'))"
      using Suc.prems cnd by simp
    from Suc.IH [OF this] obtain reqs2 where
      "calls w' = calls w1 @ map CallDescribeVolumes reqs2" by blast
    then have "calls w' = calls w @ map CallDescribeVolumes (reqs1 @ reqs2)"
      using c1 by simp
    then show ?thesis by blast
  qed
qed

lemma waitForVolume_calls:
  assumes "waitForVolume fuel ticks c volumeID w = Some (e, w')"
  shows "\<exists>reqs. calls w' = calls w @ map CallDescribeVolumes reqs"
proof -
  from assms obtain request' where
    "Poll ticks (waitForVolume_condition fuel c)
       (\<lparr>VolFilters = [], VolumeIds = [volumeID], VolNextToken = None\<rparr>, w)
     = Some (e, (request', w'))"
    by (auto simp: waitForVolume_def split: option.splits)
  then show ?thesis by (rule Poll_volume_calls)
qed

lemma zone_names:
  "randomAvailabilityZone_names zs acc =
     (if \<forall>z \<in> set zs. ZoneName z \<noteq> None
      then Ok (acc @ map (\<lambda>z. StringValue (ZoneName z)) zs)
      else Panic NilPointerDereference)"
  by (induction zs arbitrary: acc) (auto simp: StringValue_def split: option.splits)

lemma randomAvailabilityZone_calls:
  "randomAvailabilityZone c rgn w = (r, w1) \<Longrightarrow>
     calls w1 = calls w @ [CallDescribeAvailabilityZones]"
  by (auto simp: randomAvailabilityZone_def invoke_def
           split: prod.splits sum.splits outcome.splits if_splits)

lemma CreateDisk_after_zone:
  assumes ty: "CreateDisk_type u diskOptions = Inr (createType, iops)"
      and zn: "(if OptAvailabilityZone diskOptions = []
                then randomAvailabilityZone c (region c) w
                else (Ok (OptAvailabilityZone diskOptions), w)) = (Ok zone, w1)"
      and run: "CreateDisk u fuel ticks c volumeName diskOptions w = Some (r, w')"
  shows "\<exists>reqs. calls w' = calls w1 @
           CallCreateVolume (createVolumeInput u diskOptions createType iops zone)
             # map CallDescribeVolumes reqs"
proof -
  let ?req = "createVolumeInput u diskOptions createType iops zone"
  obtain a w2 where inv:
    "invoke (CreateVolumeWithContext (ec2 c) ?req) (CallCreateVolume ?req) w1 = (a, w2)"
    by (cases "invoke (CreateVolumeWithContext (ec2 c) ?req) (CallCreateVolume ?req) w1")
  have c2: "calls w2 = calls w1 @ [CallCreateVolume ?req]"
    by (rule invoke_calls_eq [OF inv])
  have unf: "CreateDisk u fuel ticks c volumeName diskOptions w =
     (case a of
        Inl err \<Rightarrow>
          if isAWSErrorSnapshotNotFound err then Some (Error ErrNotFound, w2)
          else Some (Error (Errorf ''could not create volume in EC2: %v'' [] (Some err)), w2)
      | Inr response \<Rightarrow>
          if length (StringValue (VolumeId response)) = 0
          then Some (Error (Errorf ''volume ID was not returned by CreateVolume'' [] None), w2)
          else if Int64Value (Size response) = 0
          then Some (Error (Errorf ''disk size was not returned by CreateVolume'' [] None), w2)
          else
            (case waitForVolume fuel ticks c (StringValue (VolumeId response)) w2 of
               None \<Rightarrow> None
             | Some (Some err, w3) \<Rightarrow>
                 Some (Error (Errorf ''failed to get an available volume in EC2: %v'' []
                                (Some err)), w3)
             | Some (None, w3) \<Rightarrow>
                 Some (Ok \<lparr>VolumeID = StringValue (VolumeId response),
                           CapacityGiB = Int64Value (Size response),
                           AvailabilityZone = zone,
                           SnapshotID = OptSnapshotID diskOptions\<rparr>, w3)))"
    using ty zn inv by (simp add: CreateDisk_def)
  show ?thesis
  proof (cases a)
    case (Inl err)
    then have "w' = w2" using run unf by (auto split: if_splits)
    then have "calls w' = calls w1 @ CallCreateVolume ?req # map CallDescribeVolumes []"
      using c2 by simp
    then show ?thesis by blast
  next
    case (Inr response)
    show ?thesis
    proof (cases "length (StringValue (VolumeId response)) = 0 \<or> Int64Value (Size response) = 0")
      case True
      then have "w' = w2" using run unf Inr by (auto split: if_splits)
      then have "calls w' = calls w1 @ CallCreateVolume ?req # map CallDescribeVolumes []"
        using c2 by simp
      then show ?thesis by blast
    next
      case False
      then obtain e where
        "waitForVolume fuel ticks c (StringValue (VolumeId response)) w2 = Some (e, w')"
        using run unf Inr by (auto split: option.splits if_splits)
      from waitForVolume_calls [OF this] obtain reqs where
        "calls w' = calls w2 @ map CallDescribeVolumes reqs" by blast
      then have "calls w' = calls w1 @ CallCreateVolume ?req # map CallDescribeVolumes reqs"
        using c2 by simp
      then show ?thesis by blast
    qed
  qed
qed

lemma CreateDisk_create_calls:
  assumes run: "CreateDisk u fuel ticks c volumeName diskOptions w = Some (r, w')"
      and sent: "CallCreateVolume req \<in> set (drop (length (calls w)) (calls w'))"
  shows "\<exists>createType iops zone. CreateDisk_type u diskOptions = Inr (createType, iops) \<and>
           req = createVolumeInput u diskOptions createType iops zone"
proof (cases "CreateDisk_type u diskOptions")
  case (Inl err)
  then have "w' = w" using run by (simp add: CreateDisk_def)
  then show ?thesis using sent by simp
next
  case (Inr p)
  obtain createType iops where p: "p = (createType, iops)" by (cases p)
  have ty: "CreateDisk_type u diskOptions = Inr (createType, iops)" using Inr p by simp
  obtain z w1 where zn:
    "(if OptAvailabilityZone diskOptions = []
      then randomAvailabilityZone c (region c) w
      else (Ok (OptAvailabilityZone diskOptions), w)) = (z, w1)"
    by (cases "if OptAvailabilityZone diskOptions = []
               then randomAvailabilityZone c (region c) w
               else (Ok (OptAvailabilityZone diskOptions), w)")
  have c1: "calls w1 = calls w \<or> calls w1 = calls w @ [CallDescribeAvailabilityZones]"
    using zn randomAvailabilityZone_calls [of c "region c" w z w1]
    by (auto split: if_splits)
  show ?thesis
  proof (cases z)
    case (Ok zone)
    from CreateDisk_after_zone [OF ty zn [unfolded Ok] run] obtain reqs where
      "calls w' = calls w1 @
         CallCreateVolume (createVolumeInput u diskOptions createType iops zone)
           # map CallDescribeVolumes reqs" by blast
    then have "set (drop (length (calls w)) (calls w')) \<subseteq>
                 {CallDescribeAvailabilityZones,
                  CallCreateVolume (createVolumeInput u diskOptions createType iops zone)}
                 \<union> CallDescribeVolumes ` set reqs"
      using c1 by auto
    then have "req = createVolumeInput u diskOptions createType iops zone"
      using sent by auto
    then show ?thesis using ty by blast
  next
    case (Error err)
    then have "w' = w1" using run ty zn by (simp add: CreateDisk_def)
    then have "set (drop (length (calls w)) (calls w')) \<subseteq> {CallDescribeAvailabilityZones}"
      using c1 by auto
    then show ?thesis using sent by auto
  next
    case (Panic pn)
    then have "w' = w1" using run ty zn by (simp add: CreateDisk_def)
    then have "set (drop (length (calls w)) (calls w')) \<subseteq> {CallDescribeAvailabilityZones}"
      using c1 by auto
    then show ?thesis using sent by auto
  qed
qed

lemma CreateDisk_iops_clamp:
  "CreateDisk_iops g r =
     (if g * r <s 100 then 100 else if 20000 <s g * r then 20000 else g * r)"
  by (simp add: CreateDisk_iops_def Let_def MinTotalIOPS_def MaxTotalIOPS_def word_sless_alt)

lemma CreateDisk_iops_bounds:
  "100 \<le>s CreateDisk_iops g r \<and> CreateDisk_iops g r \<le>s 20000 \<and> 0 <s CreateDisk_iops g r"
  by (simp add: CreateDisk_iops_clamp word_sless_alt word_sle_eq)

lemma CreateDisk_iops_exact:
  assumes "- (2 ^ 63) \<le> sint g * sint r" and "sint g * sint r < 2 ^ 63"
  shows "sint (CreateDisk_iops g r) = max 100 (min 20000 (sint g * sint r))"
proof -
  have "sint (g * r) = sint g * sint r"
    using assms by (simp add: sint_word_ariths signed_take_bit_int_eq_self)
  then show ?thesis
    by (simp add: CreateDisk_iops_clamp word_sless_alt)
qed

text \<open>
  Claim C4, as the code has it. For the volume types io1 and io2, every create request that
  \<^verbatim>\<open>CreateDisk\<close> sends carries an IOPS value between 100 and 20000: the \<^verbatim>\<open>int64\<close> product
  of the capacity in GiB and the rate, as Go computes it, clamped to that interval. Whenever
  the product of the two numbers fits in 64 bits, this is the clamp of the product itself:
  100 when the product is below 100, 20000 when it is above 20000, the product otherwise.
  When the options name a zone, the create request is the first call issued.
\<close>

theorem CreateDisk_sends_clamped_iops:
  assumes io: "VolumeType diskOptions = VolumeTypeIO1 \<or> VolumeType diskOptions = VolumeTypeIO2"
      and run: "CreateDisk u fuel ticks c volumeName diskOptions w = Some (r, w')"
  shows "(\<forall>req. CallCreateVolume req \<in> set (drop (length (calls w)) (calls w')) \<longrightarrow>
            Iops req =
              Some (if BytesToGiB u (CapacityBytes diskOptions) * IOPSPerGB diskOptions <s 100
                    then 100
                    else if 20000 <s BytesToGiB u (CapacityBytes diskOptions)
                                       * IOPSPerGB diskOptions
                    then 20000
                    else BytesToGiB u (CapacityBytes diskOptions) * IOPSPerGB diskOptions) \<and>
            (\<exists>iops. Iops req = Some iops \<and> 100 \<le>s iops \<and> iops \<le>s 20000 \<and>
               (- (2 ^ 63) \<le> sint (BytesToGiB u (CapacityBytes diskOptions))
                               * sint (IOPSPerGB diskOptions) \<and>
                sint (BytesToGiB u (CapacityBytes diskOptions)) * sint (IOPSPerGB diskOptions)
                  < 2 ^ 63 \<longrightarrow>
                sint iops =
                  max 100 (min 20000 (sint (BytesToGiB u (CapacityBytes diskOptions))
                                        * sint (IOPSPerGB diskOptions)))))) \<and>
         (OptAvailabilityZone diskOptions \<noteq> [] \<longrightarrow>
            (\<exists>req reqs. calls w' = calls w @ CallCreateVolume req # map CallDescribeVolumes reqs))"
proof (intro conjI allI impI)
  let ?iops = "CreateDisk_iops (BytesToGiB u (CapacityBytes diskOptions)) (IOPSPerGB diskOptions)"
  have ty: "CreateDisk_type u diskOptions = Inr (VolumeType diskOptions, ?iops)"
    using io
    by (auto simp: CreateDisk_type_def VolumeTypeIO1_def VolumeTypeIO2_def VolumeTypeGP2_def
          VolumeTypeST2_def VolumeTypeStandard_def)
  {
    fix req
    assume sent: "CallCreateVolume req \<in> set (drop (length (calls w)) (calls w'))"
    from CreateDisk_create_calls [OF run sent] ty obtain zone where
      "req = createVolumeInput u diskOptions (VolumeType diskOptions) ?iops zone"
      by auto
    then have i: "Iops req = Some ?iops"
      using CreateDisk_iops_bounds
        [of "BytesToGiB u (CapacityBytes diskOptions)" "IOPSPerGB diskOptions"]
      by (simp add: createVolumeInput_def)
    show "Iops req =
              Some (if BytesToGiB u (CapacityBytes diskOptions) * IOPSPerGB diskOptions <s 100
                    then 100
                    else if 20000 <s BytesToGiB u (CapacityBytes diskOptions)
                                       * IOPSPerGB diskOptions
                    then 20000
                    else BytesToGiB u (CapacityBytes diskOptions) * IOPSPerGB diskOptions)"
      using i by (simp only: CreateDisk_iops_clamp)
    have ex: "- (2 ^ 63) \<le> sint (BytesToGiB u (CapacityBytes diskOptions))
                               * sint (IOPSPerGB diskOptions) \<and>
              sint (BytesToGiB u (CapacityBytes diskOptions)) * sint (IOPSPerGB diskOptions)
                  < 2 ^ 63 \<longrightarrow>
              sint ?iops =
                  max 100 (min 20000 (sint (BytesToGiB u (CapacityBytes diskOptions))
                                        * sint (IOPSPerGB diskOptions)))"
      using CreateDisk_iops_exact
        [of "BytesToGiB u (CapacityBytes diskOptions)" "IOPSPerGB diskOptions"]
      by blast
    show "\<exists>iops. Iops req = Some iops \<and> 100 \<le>s iops \<and> iops \<le>s 20000 \<and>
               (- (2 ^ 63) \<le> sint (BytesToGiB u (CapacityBytes diskOptions))
                               * sint (IOPSPerGB diskOptions) \<and>
                sint (BytesToGiB u (CapacityBytes diskOptions)) * sint (IOPSPerGB diskOptions)
                  < 2 ^ 63 \<longrightarrow>
                sint iops =
                  max 100 (min 20000 (sint (BytesToGiB u (CapacityBytes diskOptions))
                                        * sint (IOPSPerGB diskOptions))))"
      using i ex CreateDisk_iops_bounds
        [of "BytesToGiB u (CapacityBytes diskOptions)" "IOPSPerGB diskOptions"]
      by blast
  }
  {
    assume z: "OptAvailabilityZone diskOptions \<noteq> []"
    then have zn: "(if OptAvailabilityZone diskOptions = []
                    then randomAvailabilityZone c (region c) w
                    else (Ok (OptAvailabilityZone diskOptions), w))
                   = (Ok (OptAvailabilityZone diskOptions), w)"
      by simp
    from CreateDisk_after_zone [OF ty zn run]
    show "\<exists>req reqs. calls w' = calls w @ CallCreateVolume req # map CallDescribeVolumes reqs"
      by blast
  }
qed

lemma io1_run:
  "CreateDisk util_GiB 1 1 (cloud_of ec2_unscripted) ''vol-a'' options_io1 world0 =
     Some (Error (Errorf ''could not create volume in EC2: %v'' []
                    (Some (OtherError ''unscripted''))),
           \<lparr>provider = 1, calls =
              [CallCreateVolume (createVolumeInput util_GiB options_io1 ''io1'' 100
                 ''us-test-1a'')]\<rparr>)"
proof -
  have g: "BytesToGiB util_GiB (4 * GiB) = 4"
    by (simp add: util_GiB_def GiB_def signed_divide_int_def)
  have ty: "CreateDisk_type util_GiB options_io1 = Inr (''io1'', 100)"
    by (simp add: CreateDisk_type_def options_io1_def g CreateDisk_iops_clamp word_sless_alt
          VolumeTypeIO1_def VolumeTypeIO2_def VolumeTypeGP2_def VolumeTypeST2_def
          VolumeTypeStandard_def)
  show ?thesis
    unfolding CreateDisk_def ty
    by (simp add: options_io1_def cloud_of_def ec2_unscripted_def world0_def invoke_def
          isAWSErrorSnapshotNotFound_def)
qed

theorem CreateDisk_sends_clamped_iops_witness:
  "Iops (createVolumeInput util_GiB options_io1 ''io1'' 100 ''us-test-1a'') = Some 100 \<and>
   sint (100 :: int64) =
     max 100 (min 20000 (sint (BytesToGiB util_GiB (CapacityBytes options_io1))
                           * sint (IOPSPerGB options_io1))) \<and>
   calls (snd (the (CreateDisk util_GiB 1 1 (cloud_of ec2_unscripted) ''vol-a'' options_io1
                      world0)))
     = [CallCreateVolume (createVolumeInput util_GiB options_io1 ''io1'' 100 ''us-test-1a'')]"
proof -
  have io: "VolumeType options_io1 = VolumeTypeIO1 \<or> VolumeType options_io1 = VolumeTypeIO2"
    by (simp add: options_io1_def VolumeTypeIO1_def)
  have g: "BytesToGiB util_GiB (CapacityBytes options_io1) * IOPSPerGB options_io1 = 40"
    by (simp add: options_io1_def util_GiB_def GiB_def signed_divide_int_def)
  have gi: "sint (BytesToGiB util_GiB (CapacityBytes options_io1)) * sint (IOPSPerGB options_io1)
              = 40"
    by (simp add: options_io1_def util_GiB_def GiB_def signed_divide_int_def)
  have cs: "calls (snd (the (CreateDisk util_GiB 1 1 (cloud_of ec2_unscripted) ''vol-a''
                              options_io1 world0)))
     = [CallCreateVolume (createVolumeInput util_GiB options_io1 ''io1'' 100 ''us-test-1a'')]"
    unfolding io1_run by simp
  have sent: "CallCreateVolume (createVolumeInput util_GiB options_io1 ''io1'' 100 ''us-test-1a'')
          \<in> set (drop (length (calls world0))
                 (calls \<lparr>provider = 1, calls =
                    [CallCreateVolume (createVolumeInput util_GiB options_io1 ''io1'' 100
                       ''us-test-1a'')]\<rparr>))"
    by (simp add: world0_def)
  from CreateDisk_sends_clamped_iops [OF io io1_run] sent
  have a: "Iops (createVolumeInput util_GiB options_io1 ''io1'' 100 ''us-test-1a'') =
          Some (if BytesToGiB util_GiB (CapacityBytes options_io1) * IOPSPerGB options_io1 <s 100
                then 100
                else if 20000 <s BytesToGiB util_GiB (CapacityBytes options_io1)
                                   * IOPSPerGB options_io1
                then 20000
                else BytesToGiB util_GiB (CapacityBytes options_io1) * IOPSPerGB options_io1)"
    and b: "\<exists>iops. Iops (createVolumeInput util_GiB options_io1 ''io1'' 100 ''us-test-1a'')
                      = Some iops \<and> 100 \<le>s iops \<and> iops \<le>s 20000 \<and>
               (- (2 ^ 63) \<le> sint (BytesToGiB util_GiB (CapacityBytes options_io1))
                               * sint (IOPSPerGB options_io1) \<and>
                sint (BytesToGiB util_GiB (CapacityBytes options_io1))
                  * sint (IOPSPerGB options_io1) < 2 ^ 63 \<longrightarrow>
                sint iops =
                  max 100 (min 20000 (sint (BytesToGiB util_GiB (CapacityBytes options_io1))
                                        * sint (IOPSPerGB options_io1))))"
    by blast+
  from a have i: "Iops (createVolumeInput util_GiB options_io1 ''io1'' 100 ''us-test-1a'')
                    = Some 100"
    unfolding g by (simp add: word_sless_alt)
  from b i have "sint (100 :: int64) =
     max 100 (min 20000 (sint (BytesToGiB util_GiB (CapacityBytes options_io1))
                           * sint (IOPSPerGB options_io1)))"
    unfolding gi by auto
  then show ?thesis using i cs by simp
qed

text \<open>
  Claim C4 as stated fails where the product passes 64 bits: for 4 GiB and the rate
  4611686018427389154 the product is above 20000, its clamp is 20000, and the create
  request carries 5000.
\<close>

theorem CreateDisk_iops_overflow_counterexample:
  "CreateDisk util_GiB 1 1 (cloud_of ec2_unscripted) ''vol-a'' options_overflow world0 =
     Some (Error (Errorf ''could not create volume in EC2: %v'' []
                    (Some (OtherError ''unscripted''))),
           \<lparr>provider = 1, calls =
              [CallCreateVolume (createVolumeInput util_GiB options_overflow ''io1'' 5000
                 ''us-test-1a'')]\<rparr>) \<and>
   Iops (createVolumeInput util_GiB options_overflow ''io1'' 5000 ''us-test-1a'') = Some 5000 \<and>
   VolumeType options_overflow = VolumeTypeIO1 \<and>
   max 100 (min 20000 (sint (BytesToGiB util_GiB (CapacityBytes options_overflow))
                         * sint (IOPSPerGB options_overflow))) = 20000"
proof -
  have g: "BytesToGiB util_GiB (4 * GiB) = 4"
    by (simp add: util_GiB_def GiB_def signed_divide_int_def)
  have ty: "CreateDisk_type util_GiB options_overflow = Inr (''io1'', 5000)"
    by (simp add: CreateDisk_type_def options_overflow_def options_io1_def g
          CreateDisk_iops_clamp word_sless_alt
          VolumeTypeIO1_def VolumeTypeIO2_def VolumeTypeGP2_def VolumeTypeST2_def
          VolumeTypeStandard_def)
  have run: "CreateDisk util_GiB 1 1 (cloud_of ec2_unscripted) ''vol-a'' options_overflow world0 =
     Some (Error (Errorf ''could not create volume in EC2: %v'' []
                    (Some (OtherError ''unscripted''))),
           \<lparr>provider = 1, calls =
              [CallCreateVolume (createVolumeInput util_GiB options_overflow ''io1'' 5000
                 ''us-test-1a'')]\<rparr>)"
    unfolding CreateDisk_def ty
    by (simp add: options_overflow_def options_io1_def cloud_of_def ec2_unscripted_def
          world0_def invoke_def isAWSErrorSnapshotNotFound_def)
  have i: "Iops (createVolumeInput util_GiB options_overflow ''io1'' 5000 ''us-test-1a'')
             = Some 5000"
    by (simp add: createVolumeInput_def word_sless_alt)
  have t: "VolumeType options_overflow = VolumeTypeIO1"
    by (simp add: options_overflow_def options_io1_def VolumeTypeIO1_def)
  have m: "max 100 (min 20000 (sint (BytesToGiB util_GiB (CapacityBytes options_overflow))
                         * sint (IOPSPerGB options_overflow))) = 20000"
    by (simp add: options_overflow_def options_io1_def g)
  show ?thesis using run i t m by blast
qed

text \<open>
  Claim C10. With no zone in the options and a valid volume type, a zone listing that
  succeeds with no zone makes \<^verbatim>\<open>CreateDisk\<close> panic with an index out of range. A
  listing whose zones all carry a name makes \<^verbatim>\<open>randomAvailabilityZone\<close> return the name of
  the first zone listed; whenever it returns a zone, that zone is the name of the first
  zone listed; and \<^verbatim>\<open>CreateDisk\<close> sends its create request with the zone returned.
\<close>

theorem CreateDisk_zone_choice:
  "(OptAvailabilityZone diskOptions = [] \<and>
    CreateDisk_type u diskOptions = Inr (createType, iops) \<and>
    invoke (DescribeAvailabilityZonesWithContext (ec2 c)) CallDescribeAvailabilityZones w
      = (Inr response, wz) \<and>
    AvailabilityZones response = [] \<longrightarrow>
      CreateDisk u fuel ticks c volumeName diskOptions w = Some (Panic IndexOutOfRange, wz)) \<and>
   (invoke (DescribeAvailabilityZonesWithContext (ec2 c)) CallDescribeAvailabilityZones w
      = (Inr response, wz) \<and>
    AvailabilityZones response = z # zs \<and> (\<forall>z' \<in> set (z # zs). ZoneName z' \<noteq> None) \<longrightarrow>
      randomAvailabilityZone c rgn w = (Ok (StringValue (ZoneName z)), wz)) \<and>
   (randomAvailabilityZone c rgn w = (Ok zone, wz) \<longrightarrow>
      (\<exists>resp z1 zs1.
          invoke (DescribeAvailabilityZonesWithContext (ec2 c)) CallDescribeAvailabilityZones w
            = (Inr resp, wz) \<and>
          AvailabilityZones resp = z1 # zs1 \<and> ZoneName z1 = Some zone)) \<and>
   (OptAvailabilityZone diskOptions = [] \<and>
    CreateDisk_type u diskOptions = Inr (createType, iops) \<and>
    randomAvailabilityZone c (region c) w = (Ok zone, wz) \<and>
    CreateDisk u fuel ticks c volumeName diskOptions w = Some (r, w') \<longrightarrow>
      (\<exists>reqs. calls w' = calls wz @
          CallCreateVolume (createVolumeInput u diskOptions createType iops zone)
            # map CallDescribeVolumes reqs) \<and>
      ReqAvailabilityZone (createVolumeInput u diskOptions createType iops zone) = zone)"
proof (intro conjI impI)
  assume a: "OptAvailabilityZone diskOptions = [] \<and>
    CreateDisk_type u diskOptions = Inr (createType, iops) \<and>
    invoke (DescribeAvailabilityZonesWithContext (ec2 c)) CallDescribeAvailabilityZones w
      = (Inr response, wz) \<and>
    AvailabilityZones response = []"
  then have "randomAvailabilityZone c (region c) w = (Panic IndexOutOfRange, wz)"
    by (simp add: randomAvailabilityZone_def)
  then show "CreateDisk u fuel ticks c volumeName diskOptions w = Some (Panic IndexOutOfRange, wz)"
    using a by (simp add: CreateDisk_def)
next
  assume a: "invoke (DescribeAvailabilityZonesWithContext (ec2 c)) CallDescribeAvailabilityZones w
      = (Inr response, wz) \<and>
    AvailabilityZones response = z # zs \<and> (\<forall>z' \<in> set (z # zs). ZoneName z' \<noteq> None)"
  then have "randomAvailabilityZone_names (AvailabilityZones response) [] =
               Ok (map (\<lambda>z. StringValue (ZoneName z)) (z # zs))"
    by (simp only: zone_names) simp
  then show "randomAvailabilityZone c rgn w = (Ok (StringValue (ZoneName z)), wz)"
    using a by (simp add: randomAvailabilityZone_def)
next
  assume a: "randomAvailabilityZone c rgn w = (Ok zone, wz)"
  obtain x wx where inv:
    "invoke (DescribeAvailabilityZonesWithContext (ec2 c)) CallDescribeAvailabilityZones w
       = (x, wx)"
    by (cases "invoke (DescribeAvailabilityZonesWithContext (ec2 c))
                 CallDescribeAvailabilityZones w")
  from a inv obtain resp where x: "x = Inr resp"
    by (cases x) (auto simp: randomAvailabilityZone_def)
  have all: "\<forall>z \<in> set (AvailabilityZones resp). ZoneName z \<noteq> None"
    using a inv x
    by (auto simp: randomAvailabilityZone_def zone_names split: if_splits)
  then have nm: "randomAvailabilityZone_names (AvailabilityZones resp) [] =
                   Ok (map (\<lambda>z. StringValue (ZoneName z)) (AvailabilityZones resp))"
    by (simp add: zone_names)
  have r: "AvailabilityZones resp \<noteq> []" "wz = wx"
      "zone = map (\<lambda>z. StringValue (ZoneName z)) (AvailabilityZones resp) ! 0"
    using a inv x nm by (auto simp: randomAvailabilityZone_def split: if_splits)
  then obtain z1 zs1 where l: "AvailabilityZones resp = z1 # zs1"
    by (cases "AvailabilityZones resp") auto
  have "ZoneName z1 = Some zone"
    using all r(3) l by (auto simp: StringValue_def)
  then show "\<exists>resp z1 zs1.
          invoke (DescribeAvailabilityZonesWithContext (ec2 c)) CallDescribeAvailabilityZones w
            = (Inr resp, wz) \<and>
          AvailabilityZones resp = z1 # zs1 \<and> ZoneName z1 = Some zone"
    using inv x r(2) l by blast
next
  assume a: "OptAvailabilityZone diskOptions = [] \<and>
    CreateDisk_type u diskOptions = Inr (createType, iops) \<and>
    randomAvailabilityZone c (region c) w = (Ok zone, wz) \<and>
    CreateDisk u fuel ticks c volumeName diskOptions w = Some (r, w')"
  then have zn: "(if OptAvailabilityZone diskOptions = []
                  then randomAvailabilityZone c (region c) w
                  else (Ok (OptAvailabilityZone diskOptions), w)) = (Ok zone, wz)"
    by simp
  from a have ty: "CreateDisk_type u diskOptions = Inr (createType, iops)"
    and run: "CreateDisk u fuel ticks c volumeName diskOptions w = Some (r, w')"
    by simp_all
  show "\<exists>reqs. calls w' = calls wz @
          CallCreateVolume (createVolumeInput u diskOptions createType iops zone)
            # map CallDescribeVolumes reqs"
    by (rule CreateDisk_after_zone [OF ty zn run])
next
  show "ReqAvailabilityZone (createVolumeInput u diskOptions createType iops zone) = zone"
    by (simp add: createVolumeInput_def)
qed

lemma io1_type: "CreateDisk_type util_GiB (options_io1\<lparr>OptAvailabilityZone := []\<rparr>)
                   = Inr (''io1'', 100)"
proof -
  have g: "BytesToGiB util_GiB (4 * GiB) = 4"
    by (simp add: util_GiB_def GiB_def signed_divide_int_def)
  show ?thesis
    by (simp add: CreateDisk_type_def options_io1_def g CreateDisk_iops_clamp word_sless_alt
          VolumeTypeIO1_def VolumeTypeIO2_def VolumeTypeGP2_def VolumeTypeST2_def
          VolumeTypeStandard_def)
qed

theorem CreateDisk_zone_choice_witness:
  "CreateDisk util_GiB 1 1 (cloud_of ec2_no_zones) ''vol-a''
     (options_io1\<lparr>OptAvailabilityZone := []\<rparr>) world0
     = Some (Panic IndexOutOfRange, \<lparr>provider = 1, calls = [CallDescribeAvailabilityZones]\<rparr>) \<and>
   randomAvailabilityZone (cloud_of ec2_two_zones) ''us-test-1'' world0
     = (Ok ''us-test-1b'', \<lparr>provider = 1, calls = [CallDescribeAvailabilityZones]\<rparr>)"
proof
  have none: "invoke (DescribeAvailabilityZonesWithContext (ec2 (cloud_of ec2_no_zones)))
                CallDescribeAvailabilityZones world0
              = (Inr \<lparr>AvailabilityZones = []\<rparr>,
                 \<lparr>provider = 1, calls = [CallDescribeAvailabilityZones]\<rparr>)"
    by (simp add: cloud_of_def ec2_no_zones_def ec2_unscripted_def world0_def invoke_def)
  have h: "OptAvailabilityZone (options_io1\<lparr>OptAvailabilityZone := []\<rparr>) = [] \<and>
    CreateDisk_type util_GiB (options_io1\<lparr>OptAvailabilityZone := []\<rparr>) = Inr (''io1'', 100) \<and>
    invoke (DescribeAvailabilityZonesWithContext (ec2 (cloud_of ec2_no_zones)))
      CallDescribeAvailabilityZones world0
      = (Inr \<lparr>AvailabilityZones = []\<rparr>,
         \<lparr>provider = 1, calls = [CallDescribeAvailabilityZones]\<rparr>) \<and>
    AvailabilityZones \<lparr>AvailabilityZones = []\<rparr> = []"
    by (intro conjI none io1_type) simp_all
  show "CreateDisk util_GiB 1 1 (cloud_of ec2_no_zones) ''vol-a''
          (options_io1\<lparr>OptAvailabilityZone := []\<rparr>) world0
        = Some (Panic IndexOutOfRange,
                \<lparr>provider = 1, calls = [CallDescribeAvailabilityZones]\<rparr>)"
    by (rule CreateDisk_zone_choice [THEN conjunct1, rule_format, OF h])
next
  have two: "invoke (DescribeAvailabilityZonesWithContext (ec2 (cloud_of ec2_two_zones)))
               CallDescribeAvailabilityZones world0
             = (Inr \<lparr>AvailabilityZones =
                  [\<lparr>ZoneName = Some ''us-test-1b''\<rparr>, \<lparr>ZoneName = Some ''us-test-1a''\<rparr>]\<rparr>,
                \<lparr>provider = 1, calls = [CallDescribeAvailabilityZones]\<rparr>)"
    by (simp add: cloud_of_def ec2_two_zones_def ec2_unscripted_def world0_def invoke_def)
  have h: "invoke (DescribeAvailabilityZonesWithContext (ec2 (cloud_of ec2_two_zones)))
               CallDescribeAvailabilityZones world0
             = (Inr \<lparr>AvailabilityZones =
                  [\<lparr>ZoneName = Some ''us-test-1b''\<rparr>, \<lparr>ZoneName = Some ''us-test-1a''\<rparr>]\<rparr>,
                \<lparr>provider = 1, calls = [CallDescribeAvailabilityZones]\<rparr>) \<and>
     AvailabilityZones \<lparr>AvailabilityZones =
                  [\<lparr>ZoneName = Some ''us-test-1b''\<rparr>, \<lparr>ZoneName = Some ''us-test-1a''\<rparr>]\<rparr>
       = \<lparr>ZoneName = Some ''us-test-1b''\<rparr> # [\<lparr>ZoneName = Some ''us-test-1a''\<rparr>] \<and>
     (\<forall>z' \<in> set (\<lparr>ZoneName = Some ''us-test-1b''\<rparr> # [\<lparr>ZoneName = Some ''us-test-1a''\<rparr>]).
         ZoneName z' \<noteq> None)"
    by (intro conjI two) simp_all
  have "randomAvailabilityZone (cloud_of ec2_two_zones) ''us-test-1'' world0
          = (Ok (StringValue (ZoneName \<lparr>ZoneName = Some ''us-test-1b''\<rparr>)),
             \<lparr>provider = 1, calls = [CallDescribeAvailabilityZones]\<rparr>)"
    by (rule CreateDisk_zone_choice [THEN conjunct2, THEN conjunct1, rule_format, OF h])
  then show "randomAvailabilityZone (cloud_of ec2_two_zones) ''us-test-1'' world0
          = (Ok ''us-test-1b'', \<lparr>provider = 1, calls = [CallDescribeAvailabilityZones]\<rparr>)"
    by (simp add: StringValue_def)
qed

end
